theory Spec2Isabelle
  imports Main "HOL-Library.Word"
begin

unbundle bit_operations_syntax

section \<open>PL/Proxy remote execution: data model\<close>

text \<open>
  The model follows \<^verbatim>\<open>src/plproxy.h\<close> and \<^verbatim>\<open>src/execute.c\<close>.
  A C \<^verbatim>\<open>int\<close> that is only ever compared, masked or assigned (\<^verbatim>\<open>run_tag\<close>, the
  hash value) is a 32-bit word holding its bit pattern; seconds and configuration values
  are unbounded integers.  Pointers that may be NULL are options.  The servers, libpq,
  SPI and the clock are an environment: a record of operations over a world \<open>'w\<close>
  that every external call reads and advances.
\<close>

type_synonym Oid = nat
type_synonym Datum = "64 word"
type_synonym PGconn = nat

text \<open>Type OIDs of the PostgreSQL catalogue (\<^verbatim>\<open>catalog/pg_type.h\<close>).\<close>

definition INT8OID :: Oid where "INT8OID = 20"
definition INT2OID :: Oid where "INT2OID = 21"
definition INT4OID :: Oid where "INT4OID = 23"

datatype RunOnType = R_HASH | R_ALL | R_ANY | R_EXACT

datatype ConnState =
    C_NONE | C_CONNECT_WRITE | C_CONNECT_READ | C_READY
  | C_QUERY_WRITE | C_QUERY_READ | C_DONE

text \<open>libpq's \<^verbatim>\<open>ExecStatusType\<close>, \<^verbatim>\<open>PostgresPollingStatusType\<close> and \<^verbatim>\<open>ConnStatusType\<close>.\<close>

datatype ExecStatusType =
    PGRES_EMPTY_QUERY | PGRES_COMMAND_OK | PGRES_TUPLES_OK | PGRES_COPY_OUT
  | PGRES_COPY_IN | PGRES_BAD_RESPONSE | PGRES_NONFATAL_ERROR | PGRES_FATAL_ERROR

datatype PostgresPollingStatusType =
    PGRES_POLLING_FAILED | PGRES_POLLING_READING | PGRES_POLLING_WRITING
  | PGRES_POLLING_OK | PGRES_POLLING_ACTIVE

datatype ConnStatusType = CONNECTION_OK | CONNECTION_BAD | CONNECTION_OTHER

record PGresult =
  resultStatus :: ExecStatusType
  ntuples :: int
  sqlstate :: int

record ProxyConfig =
  connect_timeout :: int
  query_timeout :: int
  connection_lifetime :: int
  disable_binary :: int

text \<open>
  An array argument as PostgreSQL hands it over, and a function argument.
  \<^verbatim>\<open>ARR_LBOUND\<close> is the lower bound of the first dimension, the subscript of the
  first element: 1 unless the caller chose another, as in \<^verbatim>\<open>'[0:2]={1,5,2}'\<close>.
  \<^verbatim>\<open>deconstruct_array\<close> does not read it.
\<close>

record ArrayType =
  ARR_NDIM :: int
  ARR_LBOUND :: int
  arr_elems :: "(Datum \<times> bool) list"

datatype ArgValue = ArgNull | ArgDatum Datum | ArgArray ArrayType

text \<open>\<^verbatim>\<open>ArrayBuildState\<close> of \<^verbatim>\<open>accumArrayResult\<close>: the elements accumulated so far.\<close>

record ArrayBuildState =
  dvalues :: "Datum list"
  dnulls :: "bool list"
  element_type :: Oid

record ProxyConnection =
  connstr :: string
  db :: "PGconn option"
  res :: "PGresult option"
  pos :: int
  state :: ConnState
  connect_time :: int
  query_time :: int
  same_ver :: bool
  tuning :: bool
  run_tag :: "32 word"
  split_params :: "ArgValue list option"
  bstate :: "ArrayBuildState option list option"
  param_values :: "nat \<Rightarrow> string option"
  param_lengths :: "nat \<Rightarrow> int"
  param_formats :: "nat \<Rightarrow> int"

text \<open>
  \<^verbatim>\<open>part_map\<close> holds pointers into \<^verbatim>\<open>conn_list\<close>: here the index of the connection
  pointed to.  \<^verbatim>\<open>conn_count\<close> is the length of \<^verbatim>\<open>conn_list\<close>.
\<close>

record ProxyCluster =
  config :: ProxyConfig
  part_count :: int
  part_mask :: int
  part_map :: "nat list"
  conn_list :: "ProxyConnection list"
  ret_cur_conn :: int
  ret_total :: int
  busy :: bool

record ProxyType =
  type_oid :: Oid
  has_send :: bool
  has_recv :: bool
  elem_type :: Oid

record ProxyComposite =
  use_binary :: bool

record ProxyQuery =
  sql :: string
  arg_count :: nat
  arg_lookup :: "nat \<Rightarrow> nat"

record DatumArray =
  da_type :: ProxyType
  da_values :: "Datum list"
  da_nulls :: "bool list"
  elem_count :: int

text \<open>
  The compiled function.  \<^verbatim>\<open>run_type\<close> is \<open>None\<close> while the enum still has the
  value 0 of a zeroed structure; \<^verbatim>\<open>split_args\<close> is a NULL pointer or a map of the
  arguments.
\<close>

record ProxyFunction =
  func_arg_count :: nat
  arg_types :: "nat \<Rightarrow> ProxyType"
  split_args :: "(nat \<Rightarrow> bool) option"
  new_split :: bool
  ret_scalar :: "ProxyType option"
  ret_composite :: "ProxyComposite option"
  run_type :: "RunOnType option"
  hash_sql :: ProxyQuery
  exact_nr :: int
  remote_sql :: ProxyQuery

record FunctionCallInfo =
  fc_arg :: "nat \<Rightarrow> ArgValue"
  fn_retset :: bool

text \<open>The table an SPI query leaves in \<^verbatim>\<open>SPI_tuptable\<close>; \<^verbatim>\<open>SPI_processed\<close> is its row count.\<close>

record SPITupleTable =
  tupdesc :: "Oid list"
  vals :: "Datum option list list"

subsection \<open>Errors and outcomes\<close>

text \<open>
  \<^verbatim>\<open>plproxy_error\<close>, \<^verbatim>\<open>plproxy_remote_error\<close> with \<^verbatim>\<open>iserr\<close> and \<^verbatim>\<open>elog(ERROR)\<close> do not
  return: they unwind to \<^verbatim>\<open>PG_CATCH\<close>.  An outcome is a normal return or a raised error,
  each with the state reached, since the handler works on what the failed call left
  behind.  \<open>MemoryFault\<close> stands for a NULL dereference or an access outside an array.
\<close>

datatype error =
    PlproxyError string
  | RemoteError PGresult
  | ElogError string
  | Interrupt int
  | MemoryFault

datatype ('a, 's) outcome =
    is_Normal: Normal (value_of: 'a) (state_of: 's)
  | is_Raised: Raised (error_of: error) (state_of: 's)

text \<open>\<^verbatim>\<open>MAKE_SQLSTATE('5','7','0','1','4')\<close>: five characters of six bits each.\<close>

definition ERRCODE_QUERY_CANCELED :: int where
  "ERRCODE_QUERY_CANCELED = 5 + 7 * 2 ^ 6 + 0 * 2 ^ 12 + 1 * 2 ^ 18 + 4 * 2 ^ 24"

subsection \<open>The environment\<close>

text \<open>
  Every operation takes the world and returns its answer with the next world; the handle
  of a connection is an option, as libpq accepts a NULL \<^verbatim>\<open>PGconn\<close>.
  \<open>sys_poll\<close> gets the descriptors with their event (\<open>True\<close> for \<^verbatim>\<open>POLLIN\<close>,
  \<open>False\<close> for \<^verbatim>\<open>POLLOUT\<close>) and the timeout in milliseconds, and answers the return
  value, which descriptors have \<^verbatim>\<open>revents\<close> set, and whether \<^verbatim>\<open>errno\<close> is \<^verbatim>\<open>EINTR\<close>.
  \<open>check_interrupts\<close> is \<^verbatim>\<open>CHECK_FOR_INTERRUPTS\<close>: the error code of a pending
  interrupt.  \<open>geterrcode\<close> reads the code of a raised error (main.c sets it).
  \<open>pfd_cache_reserve\<close> is the growth of the static \<^verbatim>\<open>pfd_cache\<close>: whether the
  allocation succeeded.
\<close>

record 'w env =
  SPI_execute_plan :: "ProxyQuery \<Rightarrow> ArgValue list \<Rightarrow> 'w \<Rightarrow> (bool \<times> SPITupleTable) \<times> 'w"
  gettimeofday :: "'w \<Rightarrow> int \<times> 'w"
  check_interrupts :: "'w \<Rightarrow> int option \<times> 'w"
  libc_random :: "'w \<Rightarrow> int \<times> 'w"
  sys_poll :: "(int \<times> bool) list \<Rightarrow> int \<Rightarrow> 'w \<Rightarrow> (int \<times> bool list \<times> bool) \<times> 'w"
  pfd_cache_reserve :: "nat \<Rightarrow> 'w \<Rightarrow> bool \<times> 'w"
  geterrcode :: "error \<Rightarrow> int"
  PG_VERSION :: string
  GetDatabaseEncodingName :: string
  plproxy_send_type :: "ProxyType \<Rightarrow> ArgValue \<Rightarrow> bool \<Rightarrow> string \<times> int \<times> int"
  plproxy_find_type_info :: "Oid \<Rightarrow> bool \<Rightarrow> ProxyType"
  PQstatus :: "PGconn option \<Rightarrow> 'w \<Rightarrow> ConnStatusType"
  PQparameterStatus :: "PGconn option \<Rightarrow> string \<Rightarrow> 'w \<Rightarrow> string option"
  PQsocket :: "PGconn option \<Rightarrow> 'w \<Rightarrow> int"
  PQconnectStart :: "string \<Rightarrow> 'w \<Rightarrow> PGconn option \<times> 'w"
  PQfinish :: "PGconn option \<Rightarrow> 'w \<Rightarrow> 'w"
  PQsetNoticeReceiver :: "PGconn option \<Rightarrow> 'w \<Rightarrow> 'w"
  PQconnectPoll :: "PGconn option \<Rightarrow> 'w \<Rightarrow> PostgresPollingStatusType \<times> 'w"
  PQflush :: "PGconn option \<Rightarrow> 'w \<Rightarrow> int \<times> 'w"
  PQsendQuery :: "PGconn option \<Rightarrow> string \<Rightarrow> 'w \<Rightarrow> bool \<times> 'w"
  PQsendQueryParams ::
    "PGconn option \<Rightarrow> string \<Rightarrow> nat \<Rightarrow> (nat \<Rightarrow> string option) \<Rightarrow> (nat \<Rightarrow> int) \<Rightarrow> (nat \<Rightarrow> int)
       \<Rightarrow> int \<Rightarrow> 'w \<Rightarrow> bool \<times> 'w"
  PQconsumeInput :: "PGconn option \<Rightarrow> 'w \<Rightarrow> bool \<times> 'w"
  PQisBusy :: "PGconn option \<Rightarrow> 'w \<Rightarrow> bool \<times> 'w"
  PQgetResult :: "PGconn option \<Rightarrow> 'w \<Rightarrow> PGresult option \<times> 'w"
  PQcancel :: "PGconn option \<Rightarrow> 'w \<Rightarrow> 'w"

definition IS_SPLIT_ARG :: "ProxyFunction \<Rightarrow> nat \<Rightarrow> bool" where
  "IS_SPLIT_ARG func arg = (case split_args func of None \<Rightarrow> False | Some m \<Rightarrow> m arg)"

definition PG_ARGISNULL :: "FunctionCallInfo \<Rightarrow> nat \<Rightarrow> bool" where
  "PG_ARGISNULL fcinfo i = (fc_arg fcinfo i = ArgNull)"

section \<open>Local queries (query.c)\<close>

text \<open>One argument of \<^verbatim>\<open>plproxy_query_exec\<close>; a row outside the array is a fault.\<close>

definition query_arg ::
  "ProxyFunction \<Rightarrow> FunctionCallInfo \<Rightarrow> (nat \<Rightarrow> DatumArray option) option \<Rightarrow> int \<Rightarrow> nat
     \<Rightarrow> ArgValue option" where
  "query_arg func fcinfo array_params array_row idx =
     (if PG_ARGISNULL fcinfo idx then Some ArgNull
      else if array_params \<noteq> None \<and> IS_SPLIT_ARG func idx then
        (case the array_params idx of
           None \<Rightarrow> None
         | Some ats \<Rightarrow>
             if 0 \<le> array_row \<and> nat array_row < length (da_nulls ats)
                \<and> nat array_row < length (da_values ats)
             then Some (if da_nulls ats ! nat array_row then ArgNull
                        else ArgDatum (da_values ats ! nat array_row))
             else None)
      else Some (fc_arg fcinfo idx))"

fun those_args :: "ArgValue option list \<Rightarrow> ArgValue list option" where
  "those_args [] = Some []"
| "those_args (None # xs) = None"
| "those_args (Some v # xs) = (case those_args xs of None \<Rightarrow> None | Some vs \<Rightarrow> Some (v # vs))"

definition plproxy_query_exec ::
  "'w env \<Rightarrow> ProxyFunction \<Rightarrow> FunctionCallInfo \<Rightarrow> ProxyQuery \<Rightarrow> (nat \<Rightarrow> DatumArray option) option
     \<Rightarrow> int \<Rightarrow> 'w \<Rightarrow> (SPITupleTable, 'w) outcome" where
  "plproxy_query_exec E func fcinfo q array_params array_row w =
     (case those_args (map (\<lambda>i. query_arg func fcinfo array_params array_row (arg_lookup q i))
                         [0 ..< arg_count q]) of
        None \<Rightarrow> Raised MemoryFault w
      | Some arg_values \<Rightarrow>
          (case SPI_execute_plan E q arg_values w of
             ((ok, tt), w') \<Rightarrow>
               if \<not> ok then Raised (PlproxyError ''query failed'') w'
               else Normal tt w'))"

definition SPI_gettypeid :: "Oid list \<Rightarrow> nat \<Rightarrow> Oid" where
  "SPI_gettypeid desc fnumber =
     (if 1 \<le> fnumber \<and> fnumber \<le> length desc then desc ! (fnumber - 1) else 0)"

definition SPI_getbinval :: "Datum option list \<Rightarrow> nat \<Rightarrow> Datum \<times> bool" where
  "SPI_getbinval row fnumber =
     (if 1 \<le> fnumber \<and> fnumber \<le> length row then
        (case row ! (fnumber - 1) of None \<Rightarrow> (0, True) | Some v \<Rightarrow> (v, False))
      else (0, True))"

section \<open>Tagging the partitions (execute.c)\<close>

text \<open>
  \<^verbatim>\<open>DatumGetInt32\<close>, \<^verbatim>\<open>DatumGetInt64\<close> and \<^verbatim>\<open>DatumGetInt16\<close> followed by the conversion
  to \<^verbatim>\<open>uint32 hashval\<close>: the low 32 bits of an int4 or int8, the sign extension of an int2.
\<close>

definition hashval_of :: "Oid \<Rightarrow> Datum \<Rightarrow> 32 word option" where
  "hashval_of htype val =
     (if htype = INT4OID then Some (ucast val)
      else if htype = INT8OID then Some (ucast val)
      else if htype = INT2OID then Some (scast (ucast val :: 16 word))
      else None)"

text \<open>\<^verbatim>\<open>hashval &= cluster->part_mask\<close>: the \<^verbatim>\<open>int\<close> mask is converted to \<^verbatim>\<open>uint32\<close>.\<close>

definition mask_hash :: "ProxyCluster \<Rightarrow> 32 word \<Rightarrow> 32 word" where
  "mask_hash cluster hashval = hashval AND word_of_int (part_mask cluster)"

text \<open>\<^verbatim>\<open>cluster->part_map[i]->run_tag = tag\<close>.\<close>

definition set_part_run_tag :: "nat \<Rightarrow> 32 word \<Rightarrow> ProxyCluster \<Rightarrow> (unit, ProxyCluster) outcome" where
  "set_part_run_tag i tag cluster =
     (if i < length (part_map cluster) \<and> part_map cluster ! i < length (conn_list cluster) then
        Normal () (cluster\<lparr>conn_list :=
          (conn_list cluster)[part_map cluster ! i :=
             (conn_list cluster ! (part_map cluster ! i))\<lparr>run_tag := tag\<rparr>]\<rparr>)
      else Raised MemoryFault cluster)"

fun tag_hash_rows ::
  "Oid \<Rightarrow> 32 word \<Rightarrow> Datum option list list \<Rightarrow> ProxyCluster \<Rightarrow> (unit, ProxyCluster) outcome" where
  "tag_hash_rows htype tag [] cluster = Normal () cluster"
| "tag_hash_rows htype tag (row # rows) cluster =
     (case SPI_getbinval row 1 of
        (val, isnull) \<Rightarrow>
          if isnull then Raised (PlproxyError ''Hash function returned NULL'') cluster
          else (case hashval_of htype val of
                  None \<Rightarrow> Raised (PlproxyError ''Hash result must be int2, int4 or int8'') cluster
                | Some hashval \<Rightarrow>
                    (case set_part_run_tag (unat (mask_hash cluster hashval)) tag cluster of
                       Raised e cluster' \<Rightarrow> Raised e cluster'
                     | Normal u cluster' \<Rightarrow> tag_hash_rows htype tag rows cluster')))"

definition tag_hash_partitions ::
  "'w env \<Rightarrow> ProxyFunction \<Rightarrow> FunctionCallInfo \<Rightarrow> 32 word \<Rightarrow> (nat \<Rightarrow> DatumArray option) option
     \<Rightarrow> int \<Rightarrow> ProxyCluster \<times> 'w \<Rightarrow> (unit, ProxyCluster \<times> 'w) outcome" where
  "tag_hash_partitions E func fcinfo tag array_params array_row s =
     (case s of (cluster, w) \<Rightarrow>
     (case plproxy_query_exec E func fcinfo (hash_sql func) array_params array_row w of
        Raised e w' \<Rightarrow> Raised e (cluster, w')
      | Normal tt w' \<Rightarrow>
          (case tag_hash_rows (SPI_gettypeid (tupdesc tt) 1) tag (vals tt) cluster of
             Raised e cluster' \<Rightarrow> Raised e (cluster', w')
           | Normal u cluster' \<Rightarrow>
               if (length (vals tt) = 0 \<or> length (vals tt) > 1) \<and> \<not> fn_retset fcinfo
               then Raised (PlproxyError ''Only set-returning function allows hashcount <> 1'')
                      (cluster', w')
               else Normal () (cluster', w'))))"


text \<open>\<^verbatim>\<open>for (i = 0; i < cluster->part_count; i++) cluster->part_map[i]->run_tag = tag\<close>.\<close>

fun tag_all_parts :: "32 word \<Rightarrow> nat list \<Rightarrow> ProxyCluster \<Rightarrow> (unit, ProxyCluster) outcome" where
  "tag_all_parts tag [] cluster = Normal () cluster"
| "tag_all_parts tag (i # is) cluster =
     (case set_part_run_tag i tag cluster of
        Raised e cluster' \<Rightarrow> Raised e cluster'
      | Normal u cluster' \<Rightarrow> tag_all_parts tag is cluster')"

definition with_world :: "'w \<Rightarrow> ('a, 's) outcome \<Rightarrow> ('a, 's \<times> 'w) outcome" where
  "with_world w r = (case r of Normal a s \<Rightarrow> Normal a (s, w) | Raised e s \<Rightarrow> Raised e (s, w))"

definition tag_run_on_partitions ::
  "'w env \<Rightarrow> ProxyFunction \<Rightarrow> FunctionCallInfo \<Rightarrow> 32 word \<Rightarrow> (nat \<Rightarrow> DatumArray option) option
     \<Rightarrow> int \<Rightarrow> ProxyCluster \<times> 'w \<Rightarrow> (unit, ProxyCluster \<times> 'w) outcome" where
  "tag_run_on_partitions E func fcinfo tag array_params array_row s =
     (case s of (cluster, w) \<Rightarrow>
     (case run_type func of
        Some R_HASH \<Rightarrow> tag_hash_partitions E func fcinfo tag array_params array_row s
      | Some R_ALL \<Rightarrow>
          with_world w (tag_all_parts tag [0 ..< nat (part_count cluster)] cluster)
      | Some R_EXACT \<Rightarrow>
          if exact_nr func < 0 \<or> exact_nr func \<ge> part_count cluster
          then Raised (PlproxyError ''part number out of range'') s
          else with_world w (set_part_run_tag (nat (exact_nr func)) tag cluster)
      | Some R_ANY \<Rightarrow>
          (case libc_random E w of
             (r, w') \<Rightarrow>
               if r AND part_mask cluster < 0 then Raised MemoryFault (cluster, w')
               else with_world w' (set_part_run_tag (nat (r AND part_mask cluster)) tag cluster))
      | None \<Rightarrow> Raised (PlproxyError ''uninitialized run_type'') s))"


section \<open>Loops over the connections\<close>

text \<open>
  \<^verbatim>\<open>for (i = 0; i < cluster->conn_count; i++) { conn = &cluster->conn_list[i]; ... }\<close>
  with a body that works on the one connection and on the values \<open>a\<close> the loop carries
  (counters, the world).  \<open>seen\<close> are the connections already visited.  An error
  leaves the loop at once, with the list as it then stands.
\<close>

fun foreach_conn ::
  "('a \<times> ProxyConnection \<Rightarrow> (unit, 'a \<times> ProxyConnection) outcome) \<Rightarrow> 'a
     \<Rightarrow> ProxyConnection list \<Rightarrow> ProxyConnection list
     \<Rightarrow> (unit, 'a \<times> ProxyConnection list) outcome" where
  "foreach_conn body a seen [] = Normal () (a, seen)"
| "foreach_conn body a seen (conn # rest) =
     (case body (a, conn) of
        Raised e (a', conn') \<Rightarrow> Raised e (a', seen @ conn' # rest)
      | Normal u (a', conn') \<Rightarrow> foreach_conn body a' (seen @ [conn']) rest)"

text \<open>The same loop when the body may not return (\<open>None\<close>).\<close>

fun foreach_conn_opt ::
  "('a \<times> ProxyConnection \<Rightarrow> (unit, 'a \<times> ProxyConnection) outcome option) \<Rightarrow> 'a
     \<Rightarrow> ProxyConnection list \<Rightarrow> ProxyConnection list
     \<Rightarrow> (unit, 'a \<times> ProxyConnection list) outcome option" where
  "foreach_conn_opt body a seen [] = Some (Normal () (a, seen))"
| "foreach_conn_opt body a seen (conn # rest) =
     (case body (a, conn) of
        None \<Rightarrow> None
      | Some (Raised e (a', conn')) \<Rightarrow> Some (Raised e (a', seen @ conn' # rest))
      | Some (Normal u (a', conn')) \<Rightarrow> foreach_conn_opt body a' (seen @ [conn']) rest)"

section \<open>Splitting array arguments (execute.c)\<close>

definition make_datum_array :: "'w env \<Rightarrow> ArrayType option \<Rightarrow> Oid \<Rightarrow> DatumArray" where
  "make_datum_array E v elem_type_oid =
     (case v of
        None \<Rightarrow> \<lparr>da_type = plproxy_find_type_info E elem_type_oid True,
                  da_values = [], da_nulls = [], elem_count = 0\<rparr>
      | Some a \<Rightarrow> \<lparr>da_type = plproxy_find_type_info E elem_type_oid True,
                    da_values = map fst (arr_elems a), da_nulls = map snd (arr_elems a),
                    elem_count = int (length (arr_elems a))\<rparr>)"

definition accumArrayResult ::
  "ArrayBuildState option \<Rightarrow> Datum \<Rightarrow> bool \<Rightarrow> Oid \<Rightarrow> ArrayBuildState" where
  "accumArrayResult astate dvalue disnull elt =
     (case astate of
        None \<Rightarrow> \<lparr>dvalues = [dvalue], dnulls = [disnull], element_type = elt\<rparr>
      | Some a \<Rightarrow> a\<lparr>dvalues := dvalues a @ [dvalue], dnulls := dnulls a @ [disnull]\<rparr>)"

definition makeArrayResult :: "ArrayBuildState \<Rightarrow> ArgValue" where
  "makeArrayResult a =
     ArgArray \<lparr>ARR_NDIM = (if dvalues a = [] then 0 else 1), ARR_LBOUND = 1,
               arr_elems = zip (dvalues a) (dnulls a)\<rparr>"

text \<open>One column of \<^verbatim>\<open>split_value\<close>, on the build states of the connection.\<close>

fun split_cols ::
  "ProxyFunction \<Rightarrow> (nat \<Rightarrow> DatumArray option) \<Rightarrow> int \<Rightarrow> nat list \<Rightarrow> ArrayBuildState option list
     \<Rightarrow> (unit, ArrayBuildState option list) outcome" where
  "split_cols func arrays_to_split row [] bs = Normal () bs"
| "split_cols func arrays_to_split row (col # cols) bs =
     (if \<not> IS_SPLIT_ARG func col then split_cols func arrays_to_split row cols bs
      else (case arrays_to_split col of
              None \<Rightarrow> Raised MemoryFault bs
            | Some da \<Rightarrow>
                if 0 \<le> row \<and> nat row < length (da_values da) \<and> nat row < length (da_nulls da)
                   \<and> col < length bs
                then split_cols func arrays_to_split row cols
                       (bs[col := Some (accumArrayResult (bs ! col) (da_values da ! nat row)
                                          (da_nulls da ! nat row) (type_oid (da_type da)))])
                else Raised MemoryFault bs))"

definition split_value ::
  "ProxyFunction \<Rightarrow> (nat \<Rightarrow> DatumArray option) \<Rightarrow> ProxyConnection \<Rightarrow> int
     \<Rightarrow> (unit, ProxyConnection) outcome" where
  "split_value func arrays_to_split conn row =
     (let bs = (case bstate conn of
                  None \<Rightarrow> replicate (func_arg_count func) None
                | Some b \<Rightarrow> b)
      in case split_cols func arrays_to_split row [0 ..< func_arg_count func] bs of
           Raised e bs' \<Rightarrow> Raised e (conn\<lparr>bstate := Some bs'\<rparr>)
         | Normal u bs' \<Rightarrow> Normal () (conn\<lparr>bstate := Some bs'\<rparr>))"

text \<open>\<^verbatim>\<open>get_int\<close> returns a C \<^verbatim>\<open>int\<close>: its 32 bits.\<close>

definition get_int :: "Datum option list \<Rightarrow> nat \<Rightarrow> Oid \<Rightarrow> error + 32 word" where
  "get_int row col oid =
     (case SPI_getbinval row col of
        (val, isnull) \<Rightarrow>
          if isnull then Inl (PlproxyError ''expected not-NULL value'')
          else if oid = INT4OID then Inr (ucast val)
          else if oid = INT8OID then Inr (ucast val)
          else if oid = INT2OID then Inr (scast (ucast val :: 16 word))
          else Inl (PlproxyError ''expected int arg''))"


text \<open>
  The rows of \<^verbatim>\<open>new_split_args\<close>.  \<^verbatim>\<open>idx\<close> and \<^verbatim>\<open>hash\<close> are \<^verbatim>\<open>uint32\<close>;
  \<^verbatim>\<open>idx - 1\<close> is passed as the \<^verbatim>\<open>int row\<close> of \<^verbatim>\<open>split_value\<close>.
\<close>

fun new_split_rows ::
  "ProxyFunction \<Rightarrow> Oid \<Rightarrow> Oid \<Rightarrow> (nat \<Rightarrow> DatumArray option) \<Rightarrow> Datum option list list
     \<Rightarrow> ProxyCluster \<Rightarrow> (unit, ProxyCluster) outcome" where
  "new_split_rows func oid1 oid2 arrays_to_split [] cluster = Normal () cluster"
| "new_split_rows func oid1 oid2 arrays_to_split (row # rows) cluster =
     (case get_int row 1 oid1 of
        Inl e \<Rightarrow> Raised e cluster
      | Inr idx \<Rightarrow>
     (case get_int row 2 oid2 of
        Inl e \<Rightarrow> Raised e cluster
      | Inr hash \<Rightarrow>
          if \<not> (unat (mask_hash cluster hash) < length (part_map cluster) \<and>
                part_map cluster ! unat (mask_hash cluster hash) < length (conn_list cluster))
          then Raised MemoryFault cluster
          else
            let ci = part_map cluster ! unat (mask_hash cluster hash);
                conn = conn_list cluster ! ci
            in if run_tag conn = idx
               then new_split_rows func oid1 oid2 arrays_to_split rows cluster
               else (case split_value func arrays_to_split (conn\<lparr>run_tag := idx\<rparr>)
                            (sint (idx - 1)) of
                       Raised e conn' \<Rightarrow>
                         Raised e (cluster\<lparr>conn_list := (conn_list cluster)[ci := conn']\<rparr>)
                     | Normal u conn' \<Rightarrow>
                         new_split_rows func oid1 oid2 arrays_to_split rows
                           (cluster\<lparr>conn_list := (conn_list cluster)[ci := conn']\<rparr>))))"

definition new_split_args ::
  "'w env \<Rightarrow> ProxyFunction \<Rightarrow> FunctionCallInfo \<Rightarrow> (nat \<Rightarrow> DatumArray option)
     \<Rightarrow> ProxyCluster \<times> 'w \<Rightarrow> (unit, ProxyCluster \<times> 'w) outcome" where
  "new_split_args E func fcinfo arrays_to_split s =
     (case s of (cluster, w) \<Rightarrow>
     (case plproxy_query_exec E func fcinfo (hash_sql func) None 0 w of
        Raised e w' \<Rightarrow> Raised e (cluster, w')
      | Normal tt w' \<Rightarrow>
          with_world w'
            (new_split_rows func (SPI_gettypeid (tupdesc tt) 1) (SPI_gettypeid (tupdesc tt) 2)
               arrays_to_split (vals tt) cluster)))"

text \<open>The inner loop of \<^verbatim>\<open>old_split_args\<close>: the connections tagged with \<^verbatim>\<open>my_tag\<close>.\<close>

definition old_split_conn ::
  "ProxyFunction \<Rightarrow> (nat \<Rightarrow> DatumArray option) \<Rightarrow> 32 word \<Rightarrow> int \<Rightarrow> unit \<times> ProxyConnection
     \<Rightarrow> (unit, unit \<times> ProxyConnection) outcome" where
  "old_split_conn func arrays_to_split my_tag row ac =
     (case ac of (a, conn) \<Rightarrow>
        if run_tag conn \<noteq> my_tag then Normal () (a, conn)
        else (case split_value func arrays_to_split conn row of
                Raised e conn' \<Rightarrow> Raised e (a, conn')
              | Normal u conn' \<Rightarrow> Normal () (a, conn')))"

fun old_split_rows ::
  "'w env \<Rightarrow> ProxyFunction \<Rightarrow> FunctionCallInfo \<Rightarrow> (nat \<Rightarrow> DatumArray option) \<Rightarrow> nat list
     \<Rightarrow> ProxyCluster \<times> 'w \<Rightarrow> (unit, ProxyCluster \<times> 'w) outcome" where
  "old_split_rows E func fcinfo arrays_to_split [] s = Normal () s"
| "old_split_rows E func fcinfo arrays_to_split (row # rows) s =
     (case tag_run_on_partitions E func fcinfo (word_of_nat row + 1) (Some arrays_to_split)
             (int row) s of
        Raised e s' \<Rightarrow> Raised e s'
      | Normal u (cluster, w) \<Rightarrow>
          (case foreach_conn (old_split_conn func arrays_to_split (word_of_nat row + 1) (int row))
                  () [] (conn_list cluster) of
             Raised e (a, conns) \<Rightarrow> Raised e (cluster\<lparr>conn_list := conns\<rparr>, w)
           | Normal u' (a, conns) \<Rightarrow>
               old_split_rows E func fcinfo arrays_to_split rows
                 (cluster\<lparr>conn_list := conns\<rparr>, w)))"

definition old_split_args ::
  "'w env \<Rightarrow> ProxyFunction \<Rightarrow> FunctionCallInfo \<Rightarrow> int \<Rightarrow> (nat \<Rightarrow> DatumArray option)
     \<Rightarrow> ProxyCluster \<times> 'w \<Rightarrow> (unit, ProxyCluster \<times> 'w) outcome" where
  "old_split_args E func fcinfo split_array_len arrays_to_split s =
     old_split_rows E func fcinfo arrays_to_split [0 ..< nat split_array_len] s"

text \<open>
  The first loop of \<^verbatim>\<open>prepare_and_tag_partitions\<close>: the arrays to split, their common
  length (-1 before the first one) and their number.
\<close>

fun collect_split_arrays ::
  "'w env \<Rightarrow> ProxyFunction \<Rightarrow> FunctionCallInfo \<Rightarrow> nat list
     \<Rightarrow> (nat \<Rightarrow> DatumArray option) \<times> int \<times> nat
     \<Rightarrow> error + (nat \<Rightarrow> DatumArray option) \<times> int \<times> nat" where
  "collect_split_arrays E func fcinfo [] acc = Inr acc"
| "collect_split_arrays E func fcinfo (i # is) (arrays_to_split, split_array_len, split_array_count) =
     (if \<not> IS_SPLIT_ARG func i
      then collect_split_arrays E func fcinfo is
             (arrays_to_split(i := None), split_array_len, split_array_count)
      else (case fc_arg fcinfo i of
              ArgDatum d \<Rightarrow> Inl MemoryFault
            | ArgArray v \<Rightarrow>
                if ARR_NDIM v > 1
                then Inl (PlproxyError ''split multi-dimensional arrays are not supported'')
                else
                  let da = make_datum_array E (Some v) (elem_type (arg_types func i)) in
                  if split_array_len \<ge> 0 \<and> elem_count da \<noteq> split_array_len
                  then Inl (PlproxyError ''split arrays must be of identical lengths'')
                  else collect_split_arrays E func fcinfo is
                         (arrays_to_split(i := Some da),
                          (if split_array_len < 0 then elem_count da else split_array_len),
                          split_array_count + 1)
            | ArgNull \<Rightarrow>
                  let da = make_datum_array E None (elem_type (arg_types func i)) in
                  if split_array_len \<ge> 0 \<and> elem_count da \<noteq> split_array_len
                  then Inl (PlproxyError ''split arrays must be of identical lengths'')
                  else collect_split_arrays E func fcinfo is
                         (arrays_to_split(i := Some da),
                          (if split_array_len < 0 then elem_count da else split_array_len),
                          split_array_count + 1)))"

text \<open>The last loop: the accumulated arrays become the parameters of the connection.\<close>

fun make_split_params ::
  "ProxyFunction \<Rightarrow> ArrayBuildState option list option \<Rightarrow> nat list \<Rightarrow> ArgValue list option" where
  "make_split_params func bs [] = Some []"
| "make_split_params func bs (col # cols) =
     (if \<not> IS_SPLIT_ARG func col
      then (case make_split_params func bs cols of
              None \<Rightarrow> None | Some ps \<Rightarrow> Some (ArgNull # ps))
      else (case bs of
              None \<Rightarrow> None
            | Some b \<Rightarrow>
                if col < length b then
                  (case b ! col of
                     None \<Rightarrow> None
                   | Some a \<Rightarrow>
                       (case make_split_params func bs cols of
                          None \<Rightarrow> None | Some ps \<Rightarrow> Some (makeArrayResult a # ps)))
                else None))"

definition set_split_params ::
  "ProxyFunction \<Rightarrow> unit \<times> ProxyConnection \<Rightarrow> (unit, unit \<times> ProxyConnection) outcome" where
  "set_split_params func ac =
     (case ac of (a, conn) \<Rightarrow>
        if run_tag conn = 0 then Normal () (a, conn)
        else (case make_split_params func (bstate conn) [0 ..< func_arg_count func] of
                None \<Rightarrow> Raised MemoryFault (a, conn)
              | Some ps \<Rightarrow> Normal () (a, conn\<lparr>split_params := Some ps\<rparr>)))"

definition prepare_and_tag_partitions ::
  "'w env \<Rightarrow> ProxyFunction \<Rightarrow> FunctionCallInfo \<Rightarrow> ProxyCluster \<times> 'w
     \<Rightarrow> (unit, ProxyCluster \<times> 'w) outcome" where
  "prepare_and_tag_partitions E func fcinfo s =
     (case collect_split_arrays E func fcinfo [0 ..< func_arg_count func] (\<lambda>i. None, - 1, 0) of
        Inl e \<Rightarrow> Raised e s
      | Inr (arrays_to_split, split_array_len, split_array_count) \<Rightarrow>
          if split_array_count = 0 then tag_run_on_partitions E func fcinfo 1 None 0 s
          else
            (case (if new_split func then new_split_args E func fcinfo arrays_to_split s
                   else old_split_args E func fcinfo split_array_len arrays_to_split s) of
               Raised e s' \<Rightarrow> Raised e s'
             | Normal u (cluster, w) \<Rightarrow>
                 (case foreach_conn (set_split_params func) () [] (conn_list cluster) of
                    Raised e (a, conns) \<Rightarrow> Raised e (cluster\<lparr>conn_list := conns\<rparr>, w)
                  | Normal u' (a, conns) \<Rightarrow> Normal () (cluster\<lparr>conn_list := conns\<rparr>, w))))"


section \<open>One connection (execute.c)\<close>

text \<open>
  \<^verbatim>\<open>cmp_branch\<close> on two C strings, from position \<^verbatim>\<open>i\<close> on, with the number of dots
  seen so far.
\<close>

fun cmp_branch_from :: "nat \<Rightarrow> string \<Rightarrow> string \<Rightarrow> bool" where
  "cmp_branch_from dot [] [] = True"
| "cmp_branch_from dot (a # as) [] = (dot \<noteq> 0 \<and> a = CHR ''.'')"
| "cmp_branch_from dot [] (b # bs) = (dot \<noteq> 0 \<and> b = CHR ''.'')"
| "cmp_branch_from dot (a # as) (b # bs) =
     (if a \<noteq> b then False
      else if a = CHR ''.'' then (if dot \<noteq> 0 then True else cmp_branch_from (dot + 1) as bs)
      else cmp_branch_from dot as bs)"

definition cmp_branch :: "string \<Rightarrow> string \<Rightarrow> bool" where
  "cmp_branch this that = cmp_branch_from 0 this that"

definition flush_connection ::
  "'w env \<Rightarrow> ProxyConnection \<times> 'w \<Rightarrow> (unit, ProxyConnection \<times> 'w) outcome" where
  "flush_connection E s =
     (case s of (conn, w) \<Rightarrow>
     (case PQflush E (db conn) w of
        (r, w') \<Rightarrow>
          if r > 0 then Normal () (conn\<lparr>state := C_QUERY_WRITE\<rparr>, w')
          else if r = 0 then Normal () (conn\<lparr>state := C_QUERY_READ\<rparr>, w')
          else Raised (PlproxyError ''PQflush'') (conn, w')))"

definition tune_connection ::
  "'w env \<Rightarrow> ProxyConnection \<times> 'w \<Rightarrow> (int, ProxyConnection \<times> 'w) outcome" where
  "tune_connection E s =
     (case s of (conn, w) \<Rightarrow>
     (case PQparameterStatus E (db conn) ''server_version'' w of
        None \<Rightarrow> Raised MemoryFault (conn, w)
      | Some dst_ver \<Rightarrow>
          let conn1 = conn\<lparr>same_ver := cmp_branch dst_ver (PG_VERSION E)\<rparr>;
              this_enc = GetDatabaseEncodingName E;
              need_sql = (case PQparameterStatus E (db conn) ''client_encoding'' w of
                            None \<Rightarrow> False
                          | Some dst_enc \<Rightarrow> this_enc \<noteq> dst_enc);
              set_sql = ''set client_encoding = '' @ [CHR 0x27] @ this_enc @ [CHR 0x27] @ ''; ''
          in if need_sql \<and> tuning conn1
             then Raised (PlproxyError (set_sql @ ''-- does not seem to apply'')) (conn1, w)
             else if need_sql then
               (case PQsendQuery E (db conn1) set_sql w of
                  (ok, w') \<Rightarrow>
                    if \<not> ok
                    then Raised (PlproxyError ''PQsendQuery'')
                           (conn1\<lparr>tuning := True, state := C_QUERY_WRITE\<rparr>, w')
                    else (case flush_connection E
                                 (conn1\<lparr>tuning := True, state := C_QUERY_WRITE\<rparr>, w') of
                            Raised e s' \<Rightarrow> Raised e s'
                          | Normal u s' \<Rightarrow> Normal 1 s'))
             else Normal 0 (conn1\<lparr>tuning := False\<rparr>, w)))"

text \<open>
  The \<^verbatim>\<open>binary_result\<close> of \<^verbatim>\<open>send_query\<close>; \<open>None\<close> when neither return type is
  set and \<^verbatim>\<open>func->ret_composite\<close> would be a NULL dereference.
\<close>

definition binary_result :: "ProxyConfig \<Rightarrow> ProxyConnection \<Rightarrow> ProxyFunction \<Rightarrow> int option" where
  "binary_result cf conn func =
     (if disable_binary cf = 0 \<and> same_ver conn then
        (case ret_scalar func of
           Some t \<Rightarrow> Some (if has_recv t then 1 else 0)
         | None \<Rightarrow>
             (case ret_composite func of
                None \<Rightarrow> None
              | Some c \<Rightarrow> Some (if use_binary c then 1 else 0)))
      else Some 0)"

definition send_query ::
  "'w env \<Rightarrow> ProxyFunction \<Rightarrow> ProxyConfig \<Rightarrow> ProxyConnection \<times> 'w
     \<Rightarrow> (unit, ProxyConnection \<times> 'w) outcome" where
  "send_query E func cf s =
     (case s of (conn, w) \<Rightarrow>
     (case gettimeofday E w of
        (now, w1) \<Rightarrow>
     (case tune_connection E (conn\<lparr>query_time := now\<rparr>, w1) of
        Raised e s' \<Rightarrow> Raised e s'
      | Normal r (conn2, w2) \<Rightarrow>
          if tuning conn2 then Normal () (conn2, w2)
          else (case binary_result cf conn2 func of
                  None \<Rightarrow> Raised MemoryFault (conn2, w2)
                | Some fmt \<Rightarrow>
                    (case PQsendQueryParams E (db conn2) (sql (remote_sql func))
                            (arg_count (remote_sql func)) (param_values conn2)
                            (param_lengths conn2) (param_formats conn2) fmt w2 of
                       (ok, w3) \<Rightarrow>
                         if \<not> ok
                         then Raised (PlproxyError ''PQsendQueryParams'')
                                (conn2\<lparr>state := C_QUERY_WRITE\<rparr>, w3)
                         else flush_connection E (conn2\<lparr>state := C_QUERY_WRITE\<rparr>, w3))))))"

definition PLPROXY_IDLE_CONN_CHECK :: int where
  "PLPROXY_IDLE_CONN_CHECK = 2"

text \<open>The \<^verbatim>\<open>intr_loop\<close> of \<^verbatim>\<open>check_old_conn\<close>: it polls again for as long as \<^verbatim>\<open>EINTR\<close> comes.\<close>

partial_function (option) check_old_conn_poll ::
  "'w env \<Rightarrow> PGconn option \<Rightarrow> 'w \<Rightarrow> (bool, 'w) outcome option" where
  "check_old_conn_poll E d w =
     (case sys_poll E [(PQsocket E d w, True)] 0 w of
        ((r, revents, eintr), w') \<Rightarrow>
          if r > 0 then Some (Normal False w')
          else if r < 0 then
            (if eintr then check_old_conn_poll E d w'
             else Some (Raised (PlproxyError ''check_old_conn: select failed'') w'))
          else Some (Normal True w'))"

definition check_old_conn ::
  "'w env \<Rightarrow> ProxyConfig \<Rightarrow> ProxyConnection \<Rightarrow> int \<Rightarrow> 'w \<Rightarrow> (bool, 'w) outcome option" where
  "check_old_conn E cf conn now w =
     (if PQstatus E (db conn) w \<noteq> CONNECTION_OK then Some (Normal False w)
      else if connection_lifetime cf > 0 \<and> now - connect_time conn \<ge> connection_lifetime cf
      then Some (Normal False w)
      else if now - query_time conn < PLPROXY_IDLE_CONN_CHECK then Some (Normal True w)
      else check_old_conn_poll E (db conn) w)"

text \<open>\<^verbatim>\<open>prepare_conn\<close> after its switch: "launch new connection".\<close>

definition launch_conn ::
  "'w env \<Rightarrow> int \<Rightarrow> ProxyConnection \<times> 'w \<Rightarrow> (unit, ProxyConnection \<times> 'w) outcome" where
  "launch_conn E now s =
     (case s of (conn, w) \<Rightarrow>
     (case PQconnectStart E (connstr conn) w of
        (d, w') \<Rightarrow>
          if d = None
          then Raised (PlproxyError ''No memory for PGconn'')
                 (conn\<lparr>connect_time := now, db := d\<rparr>, w')
          else if PQstatus E d w' = CONNECTION_BAD
          then Raised (PlproxyError ''PQconnectStart'')
                 (conn\<lparr>connect_time := now, db := d, state := C_CONNECT_WRITE\<rparr>, w')
          else Normal () (conn\<lparr>connect_time := now, db := d, state := C_CONNECT_WRITE\<rparr>,
                          PQsetNoticeReceiver E d w')))"

text \<open>"close rotten connection".\<close>

definition drop_conn :: "'w env \<Rightarrow> ProxyConnection \<times> 'w \<Rightarrow> ProxyConnection \<times> 'w" where
  "drop_conn E s =
     (case s of (conn, w) \<Rightarrow>
        (conn\<lparr>db := None, state := C_NONE, tuning := False\<rparr>, PQfinish E (db conn) w))"

definition prepare_conn ::
  "'w env \<Rightarrow> ProxyConfig \<Rightarrow> ProxyConnection \<times> 'w
     \<Rightarrow> (unit, ProxyConnection \<times> 'w) outcome option" where
  "prepare_conn E cf s =
     (case s of (conn, w) \<Rightarrow>
     (case gettimeofday E w of
        (now, w1) \<Rightarrow>
          if state conn = C_DONE \<or> state conn = C_READY then
            (case check_old_conn E cf (conn\<lparr>state := C_READY\<rparr>) now w1 of
               None \<Rightarrow> None
             | Some (Raised e w2) \<Rightarrow> Some (Raised e (conn\<lparr>state := C_READY\<rparr>, w2))
             | Some (Normal keep w2) \<Rightarrow>
                 if keep then Some (Normal () (conn\<lparr>state := C_READY\<rparr>, w2))
                 else Some (launch_conn E now (drop_conn E (conn\<lparr>state := C_READY\<rparr>, w2))))
          else if state conn = C_NONE then Some (launch_conn E now (conn, w1))
          else Some (launch_conn E now (drop_conn E (conn, w1)))))"


definition another_result ::
  "'w env \<Rightarrow> ProxyConnection \<times> 'w \<Rightarrow> (bool, ProxyConnection \<times> 'w) outcome" where
  "another_result E s =
     (case s of (conn, w) \<Rightarrow>
     (case PQgetResult E (db conn) w of
        (None, w') \<Rightarrow>
          if tuning conn then Normal False (conn\<lparr>state := C_READY\<rparr>, w')
          else Normal False (conn\<lparr>state := C_DONE\<rparr>, w')
      | (Some r, w') \<Rightarrow>
          (case resultStatus r of
             PGRES_TUPLES_OK \<Rightarrow>
               if res conn \<noteq> None then Raised (PlproxyError ''double result?'') (conn, w')
               else Normal True (conn\<lparr>res := Some r\<rparr>, w')
           | PGRES_COMMAND_OK \<Rightarrow> Normal True (conn, w')
           | PGRES_FATAL_ERROR \<Rightarrow> Raised (RemoteError r) (conn\<lparr>res := Some r\<rparr>, w')
           | _ \<Rightarrow> Raised (PlproxyError ''Unexpected result type'') (conn\<lparr>res := Some r\<rparr>, w'))))"

text \<open>The loop of \<^verbatim>\<open>handle_conn\<close> in state \<^verbatim>\<open>C_QUERY_READ\<close>, "until PQgetResult returns NULL".\<close>

partial_function (option) fetch_results ::
  "'w env \<Rightarrow> ProxyConnection \<times> 'w \<Rightarrow> (unit, ProxyConnection \<times> 'w) outcome option" where
  "fetch_results E s =
     (case s of (conn, w) \<Rightarrow>
     (case PQisBusy E (db conn) w of
        (is_busy, w') \<Rightarrow>
          if is_busy then Some (Normal () (conn, w'))
          else (case another_result E (conn, w') of
                  Raised e s' \<Rightarrow> Some (Raised e s')
                | Normal again s' \<Rightarrow>
                    if again then fetch_results E s' else Some (Normal () s'))))"

definition handle_conn ::
  "'w env \<Rightarrow> ProxyConnection \<times> 'w \<Rightarrow> (unit, ProxyConnection \<times> 'w) outcome option" where
  "handle_conn E s =
     (case s of (conn, w) \<Rightarrow>
        if state conn = C_CONNECT_READ \<or> state conn = C_CONNECT_WRITE then
          (case PQconnectPoll E (db conn) w of
             (PGRES_POLLING_WRITING, w') \<Rightarrow> Some (Normal () (conn\<lparr>state := C_CONNECT_WRITE\<rparr>, w'))
           | (PGRES_POLLING_READING, w') \<Rightarrow> Some (Normal () (conn\<lparr>state := C_CONNECT_READ\<rparr>, w'))
           | (PGRES_POLLING_OK, w') \<Rightarrow> Some (Normal () (conn\<lparr>state := C_READY\<rparr>, w'))
           | (PGRES_POLLING_ACTIVE, w') \<Rightarrow> Some (Raised (PlproxyError ''PQconnectPoll'') (conn, w'))
           | (PGRES_POLLING_FAILED, w') \<Rightarrow> Some (Raised (PlproxyError ''PQconnectPoll'') (conn, w')))
        else if state conn = C_QUERY_WRITE then Some (flush_connection E (conn, w))
        else if state conn = C_QUERY_READ then
          (case PQconsumeInput E (db conn) w of
             (ok, w') \<Rightarrow>
               if \<not> ok then Some (Raised (PlproxyError ''PQconsumeInput'') (conn, w'))
               else fetch_results E (conn, w'))
        else Some (Normal () (conn, w)))"

section \<open>The poll loop (execute.c)\<close>

text \<open>
  The two switches of \<^verbatim>\<open>poll_conns\<close>: \<open>None\<close> when the connection is skipped,
  otherwise the event asked for (\<open>True\<close> for \<^verbatim>\<open>POLLIN\<close>).
\<close>

definition poll_interest :: "ProxyConnection \<Rightarrow> bool option" where
  "poll_interest conn =
     (if run_tag conn = 0 then None
      else (case state conn of
              C_DONE \<Rightarrow> None | C_READY \<Rightarrow> None | C_NONE \<Rightarrow> None
            | C_CONNECT_READ \<Rightarrow> Some True | C_QUERY_READ \<Rightarrow> Some True
            | C_CONNECT_WRITE \<Rightarrow> Some False | C_QUERY_WRITE \<Rightarrow> Some False))"

definition poll_fds :: "'w env \<Rightarrow> 'w \<Rightarrow> ProxyConnection list \<Rightarrow> (int \<times> bool) list" where
  "poll_fds E w conns =
     concat (map (\<lambda>conn. case poll_interest conn of
                            None \<Rightarrow> []
                          | Some ev \<Rightarrow> [(PQsocket E (db conn) w, ev)]) conns)"

text \<open>
  "now recheck the conns": \<open>revents\<close> are the answers for the descriptors not yet
  looked at; one that \<^verbatim>\<open>poll\<close> did not fill is still 0.
\<close>

definition poll_recheck ::
  "'w env \<Rightarrow> (bool list \<times> 'w) \<times> ProxyConnection
     \<Rightarrow> (unit, (bool list \<times> 'w) \<times> ProxyConnection) outcome option" where
  "poll_recheck E ac =
     (case ac of ((revents, w), conn) \<Rightarrow>
        if poll_interest conn = None then Some (Normal () ((revents, w), conn))
        else if revents \<noteq> [] \<and> hd revents then
          (case handle_conn E (conn, w) of
             None \<Rightarrow> None
           | Some (Raised e (conn', w')) \<Rightarrow> Some (Raised e ((tl revents, w'), conn'))
           | Some (Normal u (conn', w')) \<Rightarrow> Some (Normal () ((tl revents, w'), conn')))
        else Some (Normal () ((tl revents, w), conn)))"

definition poll_conns ::
  "'w env \<Rightarrow> ProxyCluster \<times> 'w \<Rightarrow> (int, ProxyCluster \<times> 'w) outcome option" where
  "poll_conns E s =
     (case s of (cluster, w) \<Rightarrow>
     (case pfd_cache_reserve E (length (conn_list cluster)) w of
        (ok, w0) \<Rightarrow>
          if \<not> ok then Some (Raised (ElogError ''no mem for pollfd cache'') (cluster, w0))
          else
     (case sys_poll E (poll_fds E w0 (conn_list cluster)) 1000 w0 of
        ((r, revents, eintr), w1) \<Rightarrow>
          if r = 0 then Some (Normal 0 (cluster, w1))
          else if r < 0 then
            (if eintr then Some (Normal 0 (cluster, w1))
             else Some (Raised (PlproxyError ''poll() failed'') (cluster, w1)))
          else
            (case foreach_conn_opt (poll_recheck E) (revents, w1) [] (conn_list cluster) of
               None \<Rightarrow> None
             | Some (Raised e ((rs, w2), conns)) \<Rightarrow>
                 Some (Raised e (cluster\<lparr>conn_list := conns\<rparr>, w2))
             | Some (Normal u ((rs, w2), conns)) \<Rightarrow>
                 Some (Normal 1 (cluster\<lparr>conn_list := conns\<rparr>, w2))))))"

text \<open>\<^verbatim>\<open>check_timeouts\<close>: the error it raises, if any.\<close>

definition check_timeouts :: "ProxyConfig \<Rightarrow> ProxyConnection \<Rightarrow> int \<Rightarrow> error option" where
  "check_timeouts cf conn now =
     (if state conn = C_CONNECT_READ \<or> state conn = C_CONNECT_WRITE then
        (if connect_timeout cf \<le> 0 then None
         else if now - connect_time conn \<le> connect_timeout cf then None
         else Some (PlproxyError ''connect timeout''))
      else if state conn = C_QUERY_READ \<or> state conn = C_QUERY_WRITE then
        (if query_timeout cf \<le> 0 then None
         else if now - query_time conn \<le> query_timeout cf then None
         else Some (PlproxyError ''query timeout''))
      else None)"


section \<open>The executor (execute.c)\<close>

text \<open>The first loop of \<^verbatim>\<open>remote_execute\<close>: "either launch connection or send query".\<close>

definition launch_or_send ::
  "'w env \<Rightarrow> ProxyFunction \<Rightarrow> ProxyConfig \<Rightarrow> (nat \<times> 'w) \<times> ProxyConnection
     \<Rightarrow> (unit, (nat \<times> 'w) \<times> ProxyConnection) outcome option" where
  "launch_or_send E func cf ac =
     (case ac of ((pending, w), conn) \<Rightarrow>
        if run_tag conn = 0 then Some (Normal () ((pending, w), conn))
        else (case prepare_conn E cf (conn, w) of
                None \<Rightarrow> None
              | Some (Raised e (conn', w')) \<Rightarrow> Some (Raised e ((pending, w'), conn'))
              | Some (Normal u (conn', w')) \<Rightarrow>
                  if state conn' = C_READY then
                    (case send_query E func cf (conn', w') of
                       Raised e (conn2, w2) \<Rightarrow> Some (Raised e ((pending + 1, w2), conn2))
                     | Normal u' (conn2, w2) \<Rightarrow> Some (Normal () ((pending + 1, w2), conn2)))
                  else Some (Normal () ((pending + 1, w'), conn'))))"

text \<open>The "recheck" loop inside the \<^verbatim>\<open>while (pending)\<close>.\<close>

definition recheck_conn ::
  "'w env \<Rightarrow> ProxyFunction \<Rightarrow> ProxyConfig \<Rightarrow> int \<Rightarrow> (nat \<times> 'w) \<times> ProxyConnection
     \<Rightarrow> (unit, (nat \<times> 'w) \<times> ProxyConnection) outcome" where
  "recheck_conn E func cf now ac =
     (case ac of ((pending, w), conn) \<Rightarrow>
        if run_tag conn = 0 then Normal () ((pending, w), conn)
        else (case (if state conn = C_READY then send_query E func cf (conn, w)
                    else Normal () (conn, w)) of
                Raised e (conn', w') \<Rightarrow> Raised e ((pending, w'), conn')
              | Normal u (conn', w') \<Rightarrow>
                  (case check_timeouts cf conn' now of
                     Some e \<Rightarrow>
                       Raised e ((if state conn' \<noteq> C_DONE then pending + 1 else pending, w'), conn')
                   | None \<Rightarrow>
                       Normal () ((if state conn' \<noteq> C_DONE then pending + 1 else pending, w'),
                                  conn'))))"

definition recheck ::
  "'w env \<Rightarrow> ProxyFunction \<Rightarrow> ProxyCluster \<times> 'w \<Rightarrow> (nat, ProxyCluster \<times> 'w) outcome" where
  "recheck E func s =
     (case s of (cluster, w) \<Rightarrow>
     (case gettimeofday E w of
        (now, w1) \<Rightarrow>
          (case foreach_conn (recheck_conn E func (config cluster) now) (0, w1) []
                  (conn_list cluster) of
             Raised e ((pending, w2), conns) \<Rightarrow> Raised e (cluster\<lparr>conn_list := conns\<rparr>, w2)
           | Normal u ((pending, w2), conns) \<Rightarrow>
               Normal pending (cluster\<lparr>conn_list := conns\<rparr>, w2))))"

text \<open>
  \<^verbatim>\<open>while (pending)\<close>, "now loop until all results are arrived".  The loop need not
  end: then the value is \<open>None\<close>.
\<close>

partial_function (option) execute_loop ::
  "'w env \<Rightarrow> ProxyFunction \<Rightarrow> nat \<Rightarrow> ProxyCluster \<times> 'w
     \<Rightarrow> (unit, ProxyCluster \<times> 'w) outcome option" where
  "execute_loop E func pending s =
     (if pending = 0 then Some (Normal () s)
      else (case s of (cluster, w) \<Rightarrow>
        (case check_interrupts E w of
           (Some code, w1) \<Rightarrow> Some (Raised (Interrupt code) (cluster, w1))
         | (None, w1) \<Rightarrow>
             (case poll_conns E (cluster, w1) of
                None \<Rightarrow> None
              | Some (Raised e s2) \<Rightarrow> Some (Raised e s2)
              | Some (Normal r s2) \<Rightarrow>
                  if r = 0 then execute_loop E func pending s2
                  else (case recheck E func s2 of
                          Raised e s3 \<Rightarrow> Some (Raised e s3)
                        | Normal pending' s3 \<Rightarrow> execute_loop E func pending' s3)))))"

text \<open>
  "review results, calculate total".  \<^verbatim>\<open>ret_total\<close> is a C \<^verbatim>\<open>int\<close>: the sum is
  kept in its 32 bits.
\<close>

definition review_conn ::
  "int \<times> ProxyConnection \<Rightarrow> (unit, int \<times> ProxyConnection) outcome" where
  "review_conn ac =
     (case ac of (tot, conn) \<Rightarrow>
        if (run_tag conn \<noteq> 0 \<or> res conn \<noteq> None) \<and> \<not> (run_tag conn \<noteq> 0 \<and> res conn \<noteq> None)
        then Raised (PlproxyError ''run_tag does not match res'') (tot, conn)
        else if run_tag conn = 0 then Normal () (tot, conn)
        else if state conn \<noteq> C_DONE
        then Raised (PlproxyError ''Unfinished connection'') (tot, conn)
        else (case res conn of
                None \<Rightarrow> Raised (PlproxyError ''Lost result'') (tot, conn)
              | Some r \<Rightarrow>
                  if resultStatus r \<noteq> PGRES_TUPLES_OK
                  then Raised (PlproxyError ''Remote error'') (tot, conn)
                  else Normal () (sint (word_of_int (tot + ntuples r) :: 32 word), conn)))"

definition review_results :: "ProxyCluster \<Rightarrow> (unit, ProxyCluster) outcome" where
  "review_results cluster =
     (case foreach_conn review_conn (ret_total cluster) [] (conn_list cluster) of
        Raised e (tot, conns) \<Rightarrow> Raised e (cluster\<lparr>conn_list := conns, ret_total := tot\<rparr>)
      | Normal u (tot, conns) \<Rightarrow> Normal () (cluster\<lparr>conn_list := conns, ret_total := tot\<rparr>))"

definition remote_execute ::
  "'w env \<Rightarrow> ProxyFunction \<Rightarrow> ProxyCluster \<times> 'w \<Rightarrow> (unit, ProxyCluster \<times> 'w) outcome option" where
  "remote_execute E func s =
     (case s of (cluster, w) \<Rightarrow>
     (case foreach_conn_opt (launch_or_send E func (config cluster)) (0, w) []
             (conn_list cluster) of
        None \<Rightarrow> None
      | Some (Raised e ((pending, w1), conns)) \<Rightarrow>
          Some (Raised e (cluster\<lparr>conn_list := conns\<rparr>, w1))
      | Some (Normal u ((pending, w1), conns)) \<Rightarrow>
          (case execute_loop E func pending (cluster\<lparr>conn_list := conns\<rparr>, w1) of
             None \<Rightarrow> None
           | Some (Raised e s2) \<Rightarrow> Some (Raised e s2)
           | Some (Normal u' (cluster2, w2)) \<Rightarrow> Some (with_world w2 (review_results cluster2)))))"

definition remote_cancel :: "'w env \<Rightarrow> ProxyCluster \<Rightarrow> 'w \<Rightarrow> 'w" where
  "remote_cancel E cluster w =
     fold (\<lambda>conn w'. if state conn = C_NONE \<or> state conn = C_READY \<or> state conn = C_DONE
                      then w' else PQcancel E (db conn) w')
       (conn_list cluster) w"

text \<open>
  \<^verbatim>\<open>prepare_query_parameters\<close>: parameter \<^verbatim>\<open>i\<close> of the remote query on one connection;
  \<open>fixed\<close> is the conversion shared by the connections.
\<close>

definition set_parameter ::
  "'w env \<Rightarrow> ProxyFunction \<Rightarrow> FunctionCallInfo \<Rightarrow> bool \<Rightarrow> nat \<Rightarrow> (string \<times> int \<times> int) option
     \<Rightarrow> unit \<times> ProxyConnection \<Rightarrow> (unit, unit \<times> ProxyConnection) outcome" where
  "set_parameter E func fcinfo bin i fixed ac =
     (case ac of (a, conn) \<Rightarrow>
        let idx = arg_lookup (remote_sql func) i in
        if run_tag conn = 0 then Normal () (a, conn)
        else if PG_ARGISNULL fcinfo idx
        then Normal () (a, conn\<lparr>param_values := (param_values conn)(i := None),
                                  param_lengths := (param_lengths conn)(i := 0),
                                  param_formats := (param_formats conn)(i := 0)\<rparr>)
        else if IS_SPLIT_ARG func idx then
          (case split_params conn of
             None \<Rightarrow> Raised MemoryFault (a, conn)
           | Some ps \<Rightarrow>
               if idx < length ps then
                 (case plproxy_send_type E (arg_types func idx) (ps ! idx) bin of
                    (v, len, fmt) \<Rightarrow>
                      Normal () (a, conn\<lparr>param_values := (param_values conn)(i := Some v),
                                           param_lengths := (param_lengths conn)(i := len),
                                           param_formats := (param_formats conn)(i := fmt)\<rparr>))
               else Raised MemoryFault (a, conn))
        else (case fixed of
                None \<Rightarrow> Raised MemoryFault (a, conn)
              | Some (v, len, fmt) \<Rightarrow>
                  Normal () (a, conn\<lparr>param_values := (param_values conn)(i := Some v),
                                       param_lengths := (param_lengths conn)(i := len),
                                       param_formats := (param_formats conn)(i := fmt)\<rparr>)))"

fun set_parameters ::
  "'w env \<Rightarrow> ProxyFunction \<Rightarrow> FunctionCallInfo \<Rightarrow> nat list \<Rightarrow> ProxyCluster
     \<Rightarrow> (unit, ProxyCluster) outcome" where
  "set_parameters E func fcinfo [] cluster = Normal () cluster"
| "set_parameters E func fcinfo (i # is) cluster =
     (let idx = arg_lookup (remote_sql func) i;
          bin = (disable_binary (config cluster) = 0);
          fixed = (if \<not> IS_SPLIT_ARG func idx \<and> \<not> PG_ARGISNULL fcinfo idx
                   then Some (plproxy_send_type E (arg_types func idx) (fc_arg fcinfo idx) bin)
                   else None)
      in case foreach_conn (set_parameter E func fcinfo bin i fixed) () [] (conn_list cluster) of
           Raised e (a, conns) \<Rightarrow> Raised e (cluster\<lparr>conn_list := conns\<rparr>)
         | Normal u (a, conns) \<Rightarrow>
             set_parameters E func fcinfo is (cluster\<lparr>conn_list := conns\<rparr>))"

definition prepare_query_parameters ::
  "'w env \<Rightarrow> ProxyFunction \<Rightarrow> FunctionCallInfo \<Rightarrow> ProxyCluster \<Rightarrow> (unit, ProxyCluster) outcome" where
  "prepare_query_parameters E func fcinfo cluster =
     set_parameters E func fcinfo [0 ..< arg_count (remote_sql func)] cluster"

definition clean_conn :: "ProxyConnection \<Rightarrow> ProxyConnection" where
  "clean_conn conn = conn\<lparr>res := None, pos := 0, run_tag := 0, bstate := None\<rparr>"

definition plproxy_clean_results :: "ProxyCluster \<Rightarrow> ProxyCluster" where
  "plproxy_clean_results cluster =
     cluster\<lparr>ret_total := 0, ret_cur_conn := 0, conn_list := map clean_conn (conn_list cluster)\<rparr>"

text \<open>The body of \<^verbatim>\<open>PG_TRY\<close> in \<^verbatim>\<open>plproxy_exec\<close>.\<close>

definition plproxy_exec_try ::
  "'w env \<Rightarrow> ProxyFunction \<Rightarrow> FunctionCallInfo \<Rightarrow> ProxyCluster \<times> 'w
     \<Rightarrow> (unit, ProxyCluster \<times> 'w) outcome option" where
  "plproxy_exec_try E func fcinfo s =
     (case s of (cluster, w) \<Rightarrow>
     (case prepare_and_tag_partitions E func fcinfo
             (plproxy_clean_results (cluster\<lparr>busy := True\<rparr>), w) of
        Raised e s1 \<Rightarrow> Some (Raised e s1)
      | Normal u (cluster1, w1) \<Rightarrow>
          (case prepare_query_parameters E func fcinfo cluster1 of
             Raised e cluster2 \<Rightarrow> Some (Raised e (cluster2, w1))
           | Normal u' cluster2 \<Rightarrow>
               (case remote_execute E func (cluster2, w1) of
                  None \<Rightarrow> None
                | Some (Raised e s3) \<Rightarrow> Some (Raised e s3)
                | Some (Normal u'' (cluster3, w3)) \<Rightarrow>
                    Some (Normal () (cluster3\<lparr>busy := False\<rparr>, w3))))))"

text \<open>
  \<^verbatim>\<open>plproxy_exec\<close>: on an error \<^verbatim>\<open>PG_CATCH\<close> clears \<^verbatim>\<open>busy\<close>, cancels the remote
  queries if the error is a query cancel, cleans the results and throws the error again.
\<close>

definition plproxy_exec ::
  "'w env \<Rightarrow> ProxyFunction \<Rightarrow> FunctionCallInfo \<Rightarrow> ProxyCluster \<times> 'w
     \<Rightarrow> (unit, ProxyCluster \<times> 'w) outcome option" where
  "plproxy_exec E func fcinfo s =
     (case plproxy_exec_try E func fcinfo s of
        None \<Rightarrow> None
      | Some (Normal u s') \<Rightarrow> Some (Normal () s')
      | Some (Raised e (cluster, w)) \<Rightarrow>
          Some (Raised e
            (plproxy_clean_results (cluster\<lparr>busy := False\<rparr>),
             (if geterrcode E e = ERRCODE_QUERY_CANCELED
              then remote_cancel E (cluster\<lparr>busy := False\<rparr>) w else w))))"


section \<open>Notions used in the statements\<close>

text \<open>A call that returned, normally or with an error, and did not run forever.\<close>

definition returned_normally :: "('a, 's) outcome option \<Rightarrow> bool" where
  "returned_normally r = (case r of Some (Normal a s) \<Rightarrow> True | _ \<Rightarrow> False)"


text \<open>
  The cluster as cluster.c builds it: \<^verbatim>\<open>part_count\<close> is a power of two,
  \<^verbatim>\<open>part_mask\<close> is \<^verbatim>\<open>part_count - 1\<close>, \<^verbatim>\<open>part_map\<close> has \<^verbatim>\<open>part_count\<close> entries
  and each points into \<^verbatim>\<open>conn_list\<close>.
\<close>

definition cluster_wf :: "nat \<Rightarrow> ProxyCluster \<Rightarrow> bool" where
  "cluster_wf k cluster \<longleftrightarrow>
     part_count cluster = 2 ^ k \<and> part_mask cluster = part_count cluster - 1 \<and>
     int (length (part_map cluster)) = part_count cluster \<and>
     (\<forall>p \<in> set (part_map cluster). p < length (conn_list cluster))"

text \<open>
  The integer a row of the hash query holds in its first column, read with the sign of
  its type, and the partition \<^verbatim>\<open>h & part_mask\<close> it selects.
\<close>

definition hash_int :: "Oid \<Rightarrow> Datum \<Rightarrow> int" where
  "hash_int htype val =
     (if htype = INT4OID then sint (ucast val :: 32 word)
      else if htype = INT8OID then sint val
      else sint (ucast val :: 16 word))"

definition hash_part :: "ProxyCluster \<Rightarrow> Oid \<Rightarrow> Datum option list \<Rightarrow> nat" where
  "hash_part cluster htype row =
     nat (hash_int htype (fst (SPI_getbinval row 1)) AND part_mask cluster)"

definition row_hashval :: "Oid \<Rightarrow> Datum option list \<Rightarrow> 32 word" where
  "row_hashval htype row = the (hashval_of htype (fst (SPI_getbinval row 1)))"

definition row_conn :: "ProxyCluster \<Rightarrow> Oid \<Rightarrow> Datum option list \<Rightarrow> nat" where
  "row_conn cluster htype row =
     part_map cluster ! unat (mask_hash cluster (row_hashval htype row))"

section \<open>A concrete cluster and environment\<close>

text \<open>
  Four partitions on four connections, all logged in.  The servers answer at once with one
  result of three rows; the hash function returns its argument, \<open>h(x) = x\<close>.
  The query of the optimized split path, \<^verbatim>\<open>select i, h($1[i]) from
  generate_subscripts($1, 1) i\<close>, returns one row for each subscript of the array:
  the subscript, which counts from \<^verbatim>\<open>ARR_LBOUND\<close>, and the hash of the element there.
  The world records the clock, which connections have delivered their result, and the
  result formats that were asked for.
\<close>

record demo_world =
  clock :: int
  delivered :: "nat list"
  requested :: "int list"

definition demo_result :: PGresult where
  "demo_result = \<lparr>resultStatus = PGRES_TUPLES_OK, ntuples = 3, sqlstate = 0\<rparr>"

definition demo_spi ::
  "ProxyQuery \<Rightarrow> ArgValue list \<Rightarrow> demo_world \<Rightarrow> (bool \<times> SPITupleTable) \<times> demo_world" where
  "demo_spi q args w =
     (case args of
        [ArgDatum x] \<Rightarrow> ((True, \<lparr>tupdesc = [INT4OID], vals = [[Some x]]\<rparr>), w)
      | [ArgArray a] \<Rightarrow>
          ((True, \<lparr>tupdesc = [INT4OID, INT4OID],
                   vals = map (\<lambda>(i, (v, n)). [Some (word_of_int (ARR_LBOUND a + int i)),
                                              if n then None else Some v])
                            (enumerate 0 (arr_elems a))\<rparr>), w)
      | _ \<Rightarrow> ((True, \<lparr>tupdesc = [INT4OID], vals = []\<rparr>), w))"

definition demo_env :: "demo_world env" where
  "demo_env = \<lparr>
     SPI_execute_plan = demo_spi,
     gettimeofday = (\<lambda>w. (clock w, w)),
     check_interrupts = (\<lambda>w. (None, w)),
     libc_random = (\<lambda>w. (0, w)),
     sys_poll = (\<lambda>fds t w. ((int (length fds), map (\<lambda>fd. True) fds, False), w)),
     pfd_cache_reserve = (\<lambda>n w. (True, w)),
     geterrcode = (\<lambda>e. case e of Interrupt c \<Rightarrow> c | _ \<Rightarrow> 0),
     PG_VERSION = ''9.6.1'',
     GetDatabaseEncodingName = ''UTF8'',
     plproxy_send_type = (\<lambda>t v bin. ([], 0, if bin then 1 else 0)),
     plproxy_find_type_info =
       (\<lambda>oid for_send. \<lparr>type_oid = oid, has_send = True, has_recv = True, elem_type = 0\<rparr>),
     PQstatus = (\<lambda>d w. CONNECTION_OK),
     PQparameterStatus =
       (\<lambda>d name w. if name = ''server_version'' then Some ''9.6.3''
                    else if name = ''client_encoding'' then Some ''UTF8'' else None),
     PQsocket = (\<lambda>d w. case d of None \<Rightarrow> - 1 | Some h \<Rightarrow> int h + 3),
     PQconnectStart = (\<lambda>cs w. (Some 7, w)),
     PQfinish = (\<lambda>d w. w),
     PQsetNoticeReceiver = (\<lambda>d w. w),
     PQconnectPoll = (\<lambda>d w. (PGRES_POLLING_OK, w)),
     PQflush = (\<lambda>d w. (0, w)),
     PQsendQuery = (\<lambda>d q w. (True, w)),
     PQsendQueryParams =
       (\<lambda>d q n vs ls fs fmt w. (True, w\<lparr>requested := requested w @ [fmt]\<rparr>)),
     PQconsumeInput = (\<lambda>d w. (True, w)),
     PQisBusy = (\<lambda>d w. (False, w)),
     PQgetResult =
       (\<lambda>d w. case d of
                 None \<Rightarrow> (None, w)
               | Some h \<Rightarrow> if h \<in> set (delivered w) then (None, w)
                           else (Some demo_result, w\<lparr>delivered := h # delivered w\<rparr>)),
     PQcancel = (\<lambda>d w. w)\<rparr>"

text \<open>A server that never answers: every tick of \<^verbatim>\<open>poll\<close> ends after its second with 0.\<close>

definition silent_env :: "demo_world env" where
  "silent_env = demo_env\<lparr>sys_poll := (\<lambda>fds t w. ((0, [], False), w\<lparr>clock := clock w + 1\<rparr>))\<rparr>"

definition demo_conn :: "nat \<Rightarrow> ProxyConnection" where
  "demo_conn h = \<lparr>connstr = ''dbname=part'', db = Some h, res = None, pos = 0, state = C_READY,
     connect_time = 0, query_time = 0, same_ver = False, tuning = False, run_tag = 0,
     split_params = None, bstate = None, param_values = (\<lambda>i. None), param_lengths = (\<lambda>i. 0),
     param_formats = (\<lambda>i. 0)\<rparr>"

definition demo_cluster :: ProxyCluster where
  "demo_cluster = \<lparr>config = \<lparr>connect_timeout = 0, query_timeout = 1, connection_lifetime = 0,
       disable_binary = 0\<rparr>,
     part_count = 4, part_mask = 3, part_map = [0, 1, 2, 3],
     conn_list = [demo_conn 0, demo_conn 1, demo_conn 2, demo_conn 3],
     ret_cur_conn = 0, ret_total = 0, busy = False\<rparr>"

definition demo_query :: ProxyQuery where
  "demo_query = \<lparr>sql = ''select f($1)'', arg_count = 1, arg_lookup = (\<lambda>i. i)\<rparr>"

definition demo_type :: ProxyType where
  "demo_type = \<lparr>type_oid = INT4OID, has_send = True, has_recv = True, elem_type = INT4OID\<rparr>"

definition demo_func :: ProxyFunction where
  "demo_func = \<lparr>func_arg_count = 1, arg_types = (\<lambda>i. demo_type), split_args = None,
     new_split = False, ret_scalar = Some demo_type, ret_composite = None,
     run_type = Some R_HASH, hash_sql = demo_query, exact_nr = 0, remote_sql = demo_query\<rparr>"

definition demo_fcinfo :: "Datum \<Rightarrow> FunctionCallInfo" where
  "demo_fcinfo x = \<lparr>fc_arg = (\<lambda>i. ArgDatum x), fn_retset = False\<rparr>"

definition demo_world0 :: demo_world where
  "demo_world0 = \<lparr>clock = 0, delivered = [], requested = []\<rparr>"

text \<open>Scenario 2 of the specification: \<^verbatim>\<open>RUN ON h(x)\<close> with \<open>x = 6\<close>.\<close>

definition demo_hash_call :: "(unit, ProxyCluster \<times> demo_world) outcome" where
  "demo_hash_call =
     tag_hash_partitions demo_env demo_func (demo_fcinfo 6) 1 None 0 (demo_cluster, demo_world0)"

text \<open>Hash queries that return a NULL, and two rows.\<close>

definition null_hash_env :: "demo_world env" where
  "null_hash_env = demo_env\<lparr>SPI_execute_plan :=
     (\<lambda>q args w. ((True, \<lparr>tupdesc = [INT4OID], vals = [[None]]\<rparr>), w))\<rparr>"

definition two_rows_env :: "demo_world env" where
  "two_rows_env = demo_env\<lparr>SPI_execute_plan :=
     (\<lambda>q args w. ((True, \<lparr>tupdesc = [INT4OID], vals = [[Some 1], [Some 6]]\<rparr>), w))\<rparr>"

text \<open>
  What the specification calls a return type that supports binary receive: a scalar type
  with a binary receive function, or a composite type all of whose columns have one.
\<close>

definition supports_binary :: "ProxyFunction \<Rightarrow> bool" where
  "supports_binary func =
     (case ret_scalar func of
        Some t \<Rightarrow> has_recv t
      | None \<Rightarrow> (case ret_composite func of Some c \<Rightarrow> use_binary c | None \<Rightarrow> False))"

text \<open>The text of a version string before its second dot: "MAJ.MIN".\<close>

fun branch_from :: "nat \<Rightarrow> string \<Rightarrow> string" where
  "branch_from dot [] = []"
| "branch_from dot (c # cs) =
     (if c = CHR ''.'' then (if dot \<noteq> 0 then [] else c # branch_from (dot + 1) cs)
      else c # branch_from dot cs)"

definition demo_send :: "(unit, ProxyConnection \<times> demo_world) outcome" where
  "demo_send = send_query demo_env demo_func (config demo_cluster) (demo_conn 0, demo_world0)"

text \<open>A connection without a handle whose \<^verbatim>\<open>tuning\<close> flag is set.\<close>

definition unconnected_tuning_conn :: ProxyConnection where
  "unconnected_tuning_conn = (demo_conn 0)\<lparr>db := None, state := C_NONE, tuning := True\<rparr>"

definition demo_prepare ::
  "ProxyConnection \<Rightarrow> (unit, ProxyConnection \<times> demo_world) outcome option" where
  "demo_prepare conn = prepare_conn demo_env (config demo_cluster) (conn, demo_world0)"

text \<open>
  Scenario 6 of the specification: \<^verbatim>\<open>query_timeout = 1\<close> and a partition that never
  responds.  The call, and its stages up to the poll loop.
\<close>

definition silent_tagged :: "(unit, ProxyCluster \<times> demo_world) outcome" where
  "silent_tagged =
     prepare_and_tag_partitions silent_env demo_func (demo_fcinfo 6)
       (plproxy_clean_results (demo_cluster\<lparr>busy := True\<rparr>), demo_world0)"

definition silent_bound :: "(unit, ProxyCluster) outcome" where
  "silent_bound =
     prepare_query_parameters silent_env demo_func (demo_fcinfo 6) (fst (state_of silent_tagged))"

definition silent_primed ::
  "(unit, (nat \<times> demo_world) \<times> ProxyConnection list) outcome option" where
  "silent_primed =
     foreach_conn_opt (launch_or_send silent_env demo_func (config (state_of silent_bound)))
       (0, snd (state_of silent_tagged)) [] (conn_list (state_of silent_bound))"

text \<open>Scenario 2 of the specification, the whole call.\<close>

definition demo_exec :: "(unit, ProxyCluster \<times> demo_world) outcome option" where
  "demo_exec = plproxy_exec demo_env demo_func (demo_fcinfo 6) (demo_cluster, demo_world0)"

text \<open>A cluster in which connection 0 is armed and holds no result.\<close>

definition lost_result_cluster :: ProxyCluster where
  "lost_result_cluster =
     demo_cluster\<lparr>conn_list := [(demo_conn 0)\<lparr>run_tag := 1, state := C_DONE\<rparr>, demo_conn 1]\<rparr>"

text \<open>A cluster in which connection 1 holds a result and is not armed.\<close>

definition stray_result_cluster :: ProxyCluster where
  "stray_result_cluster =
     demo_cluster\<lparr>conn_list := [demo_conn 0, (demo_conn 1)\<lparr>res := Some demo_result\<rparr>]\<rparr>"

text \<open>What the review loop of \<^verbatim>\<open>remote_execute\<close> lets pass.\<close>

definition reviewed :: "ProxyConnection \<Rightarrow> bool" where
  "reviewed conn \<longleftrightarrow>
     (if run_tag conn = 0 then res conn = None
      else state conn = C_DONE \<and>
           (case res conn of None \<Rightarrow> False | Some r \<Rightarrow> resultStatus r = PGRES_TUPLES_OK))"


text \<open>The outcome of a stage on the cluster alone.\<close>

definition drop_world :: "('a, 's \<times> 'w) outcome \<Rightarrow> ('a, 's) outcome" where
  "drop_world r = (case r of Normal a (s, w) \<Rightarrow> Normal a s | Raised e (s, w) \<Rightarrow> Raised e s)"

text \<open>
  The contract of the split planner in the words of the specification: for each element
  index \<open>i\<close> in turn, the partition that the hash of row \<open>i\<close> selects is tagged with
  \<open>i + 1\<close> and the elements of row \<open>i\<close> are appended to its array builders.
\<close>

fun split_spec ::
  "ProxyFunction \<Rightarrow> (nat \<Rightarrow> DatumArray option) \<Rightarrow> (nat \<Rightarrow> 32 word) \<Rightarrow> nat list
     \<Rightarrow> ProxyCluster \<Rightarrow> (unit, ProxyCluster) outcome" where
  "split_spec func arrays_to_split hv [] cluster = Normal () cluster"
| "split_spec func arrays_to_split hv (i # is) cluster =
     (let ci = part_map cluster ! unat (mask_hash cluster (hv i)) in
      case split_value func arrays_to_split
             ((conn_list cluster ! ci)\<lparr>run_tag := word_of_nat i + 1\<rparr>) (int i) of
        Raised e conn' \<Rightarrow> Raised e (cluster\<lparr>conn_list := (conn_list cluster)[ci := conn']\<rparr>)
      | Normal u conn' \<Rightarrow>
          split_spec func arrays_to_split hv is
            (cluster\<lparr>conn_list := (conn_list cluster)[ci := conn']\<rparr>))"

text \<open>
  The rows that the query of the optimized path returns.  \<^verbatim>\<open>plproxy_split_query\<close>
  (query.c) writes it as \<^verbatim>\<open>select i, <hash of the i-th elements> from
  generate_subscripts($n, 1) i\<close> and the database evaluates it: for an array whose
  subscripts start at \<open>lb\<close>, the row for the element at position \<open>i\<close> (from 0) holds
  the int4 \<open>lb + i\<close> and the hash \<open>h i\<close> of that element.
\<close>

definition split_hash_row :: "int \<Rightarrow> (nat \<Rightarrow> Datum) \<Rightarrow> nat \<Rightarrow> Datum option list" where
  "split_hash_row lb h i = [Some (word_of_int (lb + int i)), Some (h i)]"

text \<open>No connection carries the tag of a row still to come.\<close>

definition fresh_tags :: "nat list \<Rightarrow> ProxyCluster \<Rightarrow> bool" where
  "fresh_tags is cluster \<longleftrightarrow>
     (\<forall>conn \<in> set (conn_list cluster). \<forall>i \<in> set is. run_tag conn \<noteq> word_of_nat i + 1) \<and>
     distinct is \<and> (\<forall>i \<in> set is. i < 2 ^ 31)"


text \<open>
  A split call on the array \<open>{1, 5, 2}\<close> with the hash \<open>h(x) = x\<close>: the elements 1 and 5 go
  to partition 1, the element 2 to partition 2.  The flag chooses the optimized path.
\<close>

definition demo_array :: ArrayType where
  "demo_array = \<lparr>ARR_NDIM = 1, ARR_LBOUND = 1,
                  arr_elems = [(1, False), (5, False), (2, False)]\<rparr>"

definition demo_split_func :: "bool \<Rightarrow> ProxyFunction" where
  "demo_split_func optimized = demo_func\<lparr>split_args := Some (\<lambda>i. i = 0), new_split := optimized\<rparr>"









text \<open>
  The same call on the array \<^verbatim>\<open>'[lb:lb+2]={1,5,2}'\<close>, whose subscripts start at
  \<open>lb\<close>: the whole of \<^verbatim>\<open>prepare_and_tag_partitions\<close>, on either path.
\<close>

definition shifted_fcinfo :: "int \<Rightarrow> FunctionCallInfo" where
  "shifted_fcinfo lb =
     \<lparr>fc_arg = (\<lambda>i. ArgArray (demo_array\<lparr>ARR_LBOUND := lb\<rparr>)), fn_retset = False\<rparr>"

definition shifted_split :: "bool \<Rightarrow> int \<Rightarrow> (unit, ProxyCluster \<times> demo_world) outcome" where
  "shifted_split optimized lb =
     prepare_and_tag_partitions demo_env (demo_split_func optimized) (shifted_fcinfo lb)
       (demo_cluster, demo_world0)"

text \<open>The values in the array builders of a connection, and in its split parameters.\<close>

definition accumulated :: "ProxyConnection \<Rightarrow> Datum list option list option" where
  "accumulated conn = map_option (map (map_option dvalues)) (bstate conn)"

definition split_param_values :: "ProxyConnection \<Rightarrow> Datum list list option" where
  "split_param_values conn =
     map_option (map (\<lambda>v. case v of ArgArray a \<Rightarrow> map fst (arr_elems a) | _ \<Rightarrow> []))
       (split_params conn)"

declare check_old_conn_poll.simps [code]
declare fetch_results.simps [code]
declare execute_loop.simps [code]

section \<open>Hash values and the partition mask\<close>


lemma uint_word_of_int_le:
  fixes x :: int
  assumes "0 \<le> x"
  shows "uint (word_of_int x :: 32 word) \<le> x"
  using assms by (simp only: uint_word_of_int_eq take_bit_int_less_eq_self_iff)

lemma uint_and_word_of_int:
  fixes h m :: int
  assumes "0 \<le> m" "m < 2 ^ 32"
  shows "uint ((word_of_int h :: 32 word) AND word_of_int m) = h AND m"
proof -
  have nn: "0 \<le> h AND m" using assms(1) by simp
  have "h AND m \<le> m" using assms(1) by (rule AND_upper2)
  with assms(2) have lt: "h AND m < 2 ^ LENGTH(32)" by simp
  have "uint ((word_of_int h :: 32 word) AND word_of_int m) = take_bit LENGTH(32) (h AND m)"
    by (simp only: word_wi_log_defs uint_word_of_int_eq)
  also have "\<dots> = h AND m" using nn lt by (rule take_bit_int_eq_self)
  finally show ?thesis .
qed

lemma unat_mask_word:
  fixes hv :: "32 word"
  assumes "0 \<le> m" "m < 2 ^ 32"
  shows "unat (hv AND word_of_int m) = nat (uint hv AND m)"
proof -
  have "uint (hv AND word_of_int m) = uint hv AND m"
    using uint_and_word_of_int [OF assms, of "uint hv"] by simp
  then show ?thesis by (simp add: unat_eq_nat_uint)
qed

lemma unat_mask_lt:
  fixes hv :: "32 word"
  shows "unat (hv AND word_of_int (2 ^ k - 1)) < 2 ^ k"
proof -
  have le: "hv AND word_of_int (2 ^ k - 1) \<le> (word_of_int (2 ^ k - 1) :: 32 word)"
    by (rule word_and_le1)
  have "uint (word_of_int (2 ^ k - 1) :: 32 word) \<le> 2 ^ k - 1"
    by (rule uint_word_of_int_le) simp
  with le have "uint (hv AND word_of_int (2 ^ k - 1)) \<le> 2 ^ k - 1"
    unfolding word_le_def by (rule order_trans)
  then have "uint (hv AND word_of_int (2 ^ k - 1)) < 2 ^ k" by simp
  then show ?thesis
    by (simp only: unat_eq_nat_uint nat_less_iff uint_ge_0 of_nat_power of_nat_numeral)
qed

lemma ucast_sint64: "(ucast (val :: 64 word) :: 32 word) = word_of_int (sint val)"
  by (rule bit_word_eqI) (auto simp: bit_simps)

lemma hashval_of_int:
  assumes "htype \<in> {INT2OID, INT4OID, INT8OID}"
  shows "hashval_of htype val = Some (word_of_int (hash_int htype val))"
proof -
  consider "htype = INT4OID" | "htype = INT8OID" | "htype = INT2OID" using assms by auto
  then show ?thesis
  proof cases
    case 1
    then show ?thesis by (simp add: hashval_of_def hash_int_def)
  next
    case 2
    then show ?thesis
      by (simp only: hashval_of_def hash_int_def ucast_sint64 INT4OID_def INT8OID_def) simp
  next
    case 3
    then show ?thesis
      by (simp only: hashval_of_def hash_int_def scast_eq INT4OID_def INT8OID_def INT2OID_def) simp
  qed
qed




section \<open>Tagging by hash\<close>


lemma set_part_run_tag_Normal:
  assumes "set_part_run_tag i tag cl = Normal u cl'"
  shows "i < length (part_map cl) \<and> part_map cl ! i < length (conn_list cl) \<and>
         cl' = cl\<lparr>conn_list := (conn_list cl)[part_map cl ! i :=
                  (conn_list cl ! (part_map cl ! i))\<lparr>run_tag := tag\<rparr>]\<rparr>"
  using assms by (auto simp: set_part_run_tag_def split: if_splits)

lemma mask_hash_conn_list [simp]: "mask_hash (cl\<lparr>conn_list := xs\<rparr>) hv = mask_hash cl hv"
  by (simp add: mask_hash_def)

lemma row_conn_conn_list [simp]: "row_conn (cl\<lparr>conn_list := xs\<rparr>) htype row = row_conn cl htype row"
  by (simp add: row_conn_def)

lemma tag_hash_rows_Normal:
  assumes "tag_hash_rows htype tag rows cl = Normal u cl'"
  shows "(\<exists>xs. cl' = cl\<lparr>conn_list := xs\<rparr> \<and> length xs = length (conn_list cl) \<and>
           (\<forall>j<length (conn_list cl). xs ! j =
              (if j \<in> row_conn cl htype ` set rows then (conn_list cl ! j)\<lparr>run_tag := tag\<rparr>
               else conn_list cl ! j))) \<and>
         (\<forall>row \<in> set rows. \<not> snd (SPI_getbinval row 1) \<and>
              hashval_of htype (fst (SPI_getbinval row 1)) \<noteq> None \<and>
              unat (mask_hash cl (row_hashval htype row)) < length (part_map cl) \<and>
              row_conn cl htype row < length (conn_list cl))"
  using assms
proof (induction rows arbitrary: cl)
  case Nil
  then show ?case by (auto intro: exI[of _ "conn_list cl"])
next
  case (Cons row rows)
  obtain val isnull where gb: "SPI_getbinval row 1 = (val, isnull)" by (cases "SPI_getbinval row 1")
  from Cons.prems gb have nn: "\<not> isnull" by (auto split: if_splits)
  from Cons.prems gb nn obtain hv where hv: "hashval_of htype val = Some hv"
    by (auto split: option.splits)
  from Cons.prems gb nn hv obtain cl1 where
    s1: "set_part_run_tag (unat (mask_hash cl hv)) tag cl = Normal () cl1" and
    r1: "tag_hash_rows htype tag rows cl1 = Normal u cl'"
    by (auto split: outcome.splits)
  let ?i = "unat (mask_hash cl hv)"
  let ?c = "part_map cl ! ?i"
  from set_part_run_tag_Normal [OF s1] have
    i: "?i < length (part_map cl)" and c: "?c < length (conn_list cl)" and
    cl1: "cl1 = cl\<lparr>conn_list := (conn_list cl)[?c := (conn_list cl ! ?c)\<lparr>run_tag := tag\<rparr>]\<rparr>"
    by auto
  have rc: "row_conn cl htype row = ?c"
    unfolding row_conn_def row_hashval_def gb by (simp add: hv)
  from Cons.IH [OF r1] obtain xs where
    x1: "cl' = cl1\<lparr>conn_list := xs\<rparr>" and x2: "length xs = length (conn_list cl1)" and
    x3: "\<forall>j<length (conn_list cl1). xs ! j =
              (if j \<in> row_conn cl1 htype ` set rows then (conn_list cl1 ! j)\<lparr>run_tag := tag\<rparr>
               else conn_list cl1 ! j)" and
    x4: "\<forall>row \<in> set rows. \<not> snd (SPI_getbinval row 1) \<and>
              hashval_of htype (fst (SPI_getbinval row 1)) \<noteq> None \<and>
              unat (mask_hash cl1 (row_hashval htype row)) < length (part_map cl1) \<and>
              row_conn cl1 htype row < length (conn_list cl1)"
    by blast
  have "cl' = cl\<lparr>conn_list := xs\<rparr>" using x1 cl1 by simp
  moreover have "length xs = length (conn_list cl)" using x2 cl1 by simp
  moreover have "\<forall>j<length (conn_list cl). xs ! j =
              (if j \<in> row_conn cl htype ` set (row # rows) then (conn_list cl ! j)\<lparr>run_tag := tag\<rparr>
               else conn_list cl ! j)"
  proof (intro allI impI)
    fix j assume j: "j < length (conn_list cl)"
    then have "j < length (conn_list cl1)" using cl1 by simp
    with x3 have "xs ! j = (if j \<in> row_conn cl1 htype ` set rows then (conn_list cl1 ! j)\<lparr>run_tag := tag\<rparr>
               else conn_list cl1 ! j)" by blast
    then show "xs ! j = (if j \<in> row_conn cl htype ` set (row # rows) then (conn_list cl ! j)\<lparr>run_tag := tag\<rparr>
               else conn_list cl ! j)"
      using j c rc cl1 by (cases "j = ?c") (auto simp: nth_list_update)
  qed
  moreover have "\<forall>r \<in> set (row # rows). \<not> snd (SPI_getbinval r 1) \<and>
              hashval_of htype (fst (SPI_getbinval r 1)) \<noteq> None \<and>
              unat (mask_hash cl (row_hashval htype r)) < length (part_map cl) \<and>
              row_conn cl htype r < length (conn_list cl)"
  proof -
    have "unat (mask_hash cl (row_hashval htype row)) = ?i"
      unfolding row_hashval_def gb by (simp add: hv)
    moreover have "\<not> snd (SPI_getbinval row 1)" "hashval_of htype (fst (SPI_getbinval row 1)) \<noteq> None"
      unfolding gb using nn hv by simp_all
    ultimately show ?thesis using x4 cl1 i c rc by auto
  qed
  ultimately show ?case by blast
qed

lemma tag_hash_rows_null:
  assumes "\<exists>row \<in> set rows. snd (SPI_getbinval row 1)"
  shows "\<exists>e cl'. tag_hash_rows htype tag rows cl = Raised e cl'"
  using assms
proof (induction rows arbitrary: cl)
  case Nil
  then show ?case by simp
next
  case (Cons row rows)
  show ?case
  proof (cases "tag_hash_rows htype tag (row # rows) cl")
    case (Normal u cl')
    from tag_hash_rows_Normal [OF Normal] Cons.prems show ?thesis by auto
  next
    case (Raised e cl')
    then show ?thesis by blast
  qed
qed

lemma cluster_wf_index:
  assumes "cluster_wf k cl"
  shows "unat (mask_hash cl hv) < length (part_map cl) \<and>
         part_map cl ! unat (mask_hash cl hv) < length (conn_list cl)"
proof -
  from assms have m: "part_mask cl = 2 ^ k - 1" and l: "int (length (part_map cl)) = 2 ^ k"
    and v: "\<forall>p \<in> set (part_map cl). p < length (conn_list cl)"
    by (auto simp: cluster_wf_def)
  have "unat (mask_hash cl hv) < 2 ^ k" unfolding mask_hash_def m by (rule unat_mask_lt)
  moreover from l have "length (part_map cl) = 2 ^ k"
    by (metis of_nat_eq_iff of_nat_numeral of_nat_power)
  ultimately have a: "unat (mask_hash cl hv) < length (part_map cl)" by simp
  with v show ?thesis by auto
qed

lemma tag_hash_rows_ok:
  assumes "cluster_wf k cl" and "htype \<in> {INT2OID, INT4OID, INT8OID}"
      and "\<forall>row \<in> set rows. \<not> snd (SPI_getbinval row 1)"
  shows "\<exists>cl'. tag_hash_rows htype tag rows cl = Normal () cl' \<and> cluster_wf k cl'"
  using assms
proof (induction rows arbitrary: cl)
  case Nil
  then show ?case by simp
next
  case (Cons row rows)
  obtain val isnull where gb: "SPI_getbinval row 1 = (val, isnull)" by (cases "SPI_getbinval row 1")
  with Cons.prems have nn: "\<not> isnull" by auto
  from hashval_of_int [OF Cons.prems(2)] obtain hv where hv: "hashval_of htype val = Some hv" by blast
  let ?i = "unat (mask_hash cl hv)"
  let ?cl1 = "cl\<lparr>conn_list := (conn_list cl)[part_map cl ! ?i :=
                  (conn_list cl ! (part_map cl ! ?i))\<lparr>run_tag := tag\<rparr>]\<rparr>"
  from cluster_wf_index [OF Cons.prems(1)] have
    s1: "set_part_run_tag ?i tag cl = Normal () ?cl1" by (simp add: set_part_run_tag_def)
  have wf1: "cluster_wf k ?cl1" using Cons.prems(1) by (simp add: cluster_wf_def)
  from Cons.IH [OF wf1 Cons.prems(2)] Cons.prems(3) obtain cl' where
    "tag_hash_rows htype tag rows ?cl1 = Normal () cl'" "cluster_wf k cl'" by auto
  then show ?case using gb nn hv s1 by simp
qed


lemma hashval_of_Some_type:
  assumes "hashval_of htype val \<noteq> None"
  shows "htype \<in> {INT2OID, INT4OID, INT8OID}"
  using assms by (auto simp: hashval_of_def split: if_splits)

lemma row_conn_hash_part:
  assumes "htype \<in> {INT2OID, INT4OID, INT8OID}" "0 \<le> part_mask cl" "part_mask cl < 2 ^ 31"
  shows "unat (mask_hash cl (row_hashval htype row)) = hash_part cl htype row"
proof -
  have m: "part_mask cl < 2 ^ 32" using assms(3) by simp
  have "row_hashval htype row = word_of_int (hash_int htype (fst (SPI_getbinval row 1)))"
    unfolding row_hashval_def by (simp only: hashval_of_int [OF assms(1)] option.sel)
  then have "uint (mask_hash cl (row_hashval htype row)) =
               hash_int htype (fst (SPI_getbinval row 1)) AND part_mask cl"
    unfolding mask_hash_def by (simp only: uint_and_word_of_int [OF assms(2) m])
  then show ?thesis unfolding hash_part_def by (simp only: unat_eq_nat_uint)
qed

section \<open>Outcomes\<close>

lemma is_Normal_eq:
  "is_Normal r \<Longrightarrow> r = Normal (value_of r) (state_of r)"
  by (cases r) simp_all

section \<open>The claims\<close>

text \<open>
  C9.  Whatever int2, int4 or int8 value the hash query returns, negative ones included,
  its conversion to \<^verbatim>\<open>uint32\<close> masked with \<^verbatim>\<open>part_mask = part_count - 1\<close>, for
  \<^verbatim>\<open>part_count\<close> a power of two, is below \<^verbatim>\<open>part_count\<close>; so the access to
  \<^verbatim>\<open>part_map\<close> in the tagging step is inside the array.
\<close>

theorem hash_index_in_bounds:
  assumes "part_count cluster = 2 ^ k" and "part_mask cluster = part_count cluster - 1"
      and "htype \<in> {INT2OID, INT4OID, INT8OID}"
  shows "hashval_of htype val \<noteq> None \<and>
         unat (mask_hash cluster (the (hashval_of htype val))) < nat (part_count cluster) \<and>
         (int (length (part_map cluster)) = part_count cluster \<longrightarrow>
            unat (mask_hash cluster (the (hashval_of htype val))) < length (part_map cluster))"
proof -
  let ?hv = "the (hashval_of htype val)"
  have m: "part_mask cluster = 2 ^ k - 1" using assms(1,2) by simp
  have lt: "unat (mask_hash cluster ?hv) < 2 ^ k"
    unfolding mask_hash_def m by (rule unat_mask_lt)
  have p2: "nat (2 ^ k :: int) = 2 ^ k" by (simp add: nat_power_eq)
  have pc: "nat (part_count cluster) = 2 ^ k" by (simp only: assms(1) p2)
  have a: "unat (mask_hash cluster ?hv) < nat (part_count cluster)" using lt by (simp only: pc)
  have b: "int (length (part_map cluster)) = part_count cluster \<longrightarrow>
             unat (mask_hash cluster ?hv) < length (part_map cluster)"
    using a by auto
  have c: "hashval_of htype val \<noteq> None" using hashval_of_int [OF assms(3), of val] by simp
  from a b c show ?thesis by blast
qed

theorem hash_index_in_bounds_witness:
  "part_count demo_cluster = 2 ^ 2 \<and> part_mask demo_cluster = part_count demo_cluster - 1 \<and>
   INT2OID \<in> {INT2OID, INT4OID, INT8OID} \<and>
   int (length (part_map demo_cluster)) = part_count demo_cluster \<and>
   hashval_of INT2OID 0xFFFF = Some 0xFFFFFFFF \<and>
   unat (mask_hash demo_cluster (the (hashval_of INT2OID 0xFFFF))) < length (part_map demo_cluster)"
proof -
  have h1: "part_count demo_cluster = 2 ^ 2" by (simp add: demo_cluster_def)
  have h2: "part_mask demo_cluster = part_count demo_cluster - 1" by (simp add: demo_cluster_def)
  have h3: "INT2OID \<in> {INT2OID, INT4OID, INT8OID}" by simp
  have h4: "int (length (part_map demo_cluster)) = part_count demo_cluster"
    by (simp add: demo_cluster_def)
  have v: "hashval_of INT2OID 0xFFFF = Some 0xFFFFFFFF"
    by (simp add: hashval_of_def INT2OID_def INT4OID_def INT8OID_def)
  from hash_index_in_bounds [OF h1 h2 h3, of "0xFFFF"] h4
  have "unat (mask_hash demo_cluster (the (hashval_of INT2OID 0xFFFF))) < length (part_map demo_cluster)"
    by blast
  with h1 h2 h3 h4 v show ?thesis by blast
qed

lemma tag_hash_partitions_Normal:
  assumes run: "tag_hash_partitions E func fcinfo tag ap ar (cl, w) = Normal u (cl', w')"
      and q: "plproxy_query_exec E func fcinfo (hash_sql func) ap ar w = Normal tt w1"
  shows "tag_hash_rows (SPI_gettypeid (tupdesc tt) 1) tag (vals tt) cl = Normal () cl'"
  using run q
  by (auto simp: tag_hash_partitions_def split: outcome.splits if_splits)

text \<open>
  C2.  When the hash routing of a call returns, every row value \<open>h\<close> of the hash query
  is an int2, int4 or int8, the partition \<^verbatim>\<open>part_map[h & part_mask]\<close> exists and its
  connection carries the given tag, and a connection is changed only if some row selects
  it, and then only in its \<^verbatim>\<open>run_tag\<close>.
\<close>

theorem tag_hash_partitions_tags_exactly:
  assumes run: "tag_hash_partitions E func fcinfo tag array_params array_row (cluster, w) =
                  Normal u (cluster', w')"
      and q: "plproxy_query_exec E func fcinfo (hash_sql func) array_params array_row w =
                Normal tt w1"
      and m: "0 \<le> part_mask cluster" "part_mask cluster < 2 ^ 31"
  shows "length (conn_list cluster') = length (conn_list cluster) \<and>
         (\<forall>row \<in> set (vals tt).
            SPI_gettypeid (tupdesc tt) 1 \<in> {INT2OID, INT4OID, INT8OID} \<and>
            hash_part cluster (SPI_gettypeid (tupdesc tt) 1) row < length (part_map cluster) \<and>
            part_map cluster ! hash_part cluster (SPI_gettypeid (tupdesc tt) 1) row
              < length (conn_list cluster) \<and>
            run_tag (conn_list cluster'
                       ! (part_map cluster ! hash_part cluster (SPI_gettypeid (tupdesc tt) 1) row))
              = tag) \<and>
         (\<forall>j < length (conn_list cluster).
            conn_list cluster' ! j =
              (if j \<in> (\<lambda>row. part_map cluster ! hash_part cluster (SPI_gettypeid (tupdesc tt) 1) row)
                        ` set (vals tt)
               then (conn_list cluster ! j)\<lparr>run_tag := tag\<rparr>
               else conn_list cluster ! j))"
proof -
  let ?ht = "SPI_gettypeid (tupdesc tt) 1"
  from tag_hash_partitions_Normal [OF run q]
  have r: "tag_hash_rows ?ht tag (vals tt) cluster = Normal () cluster'" .
  from tag_hash_rows_Normal [OF r] obtain xs where
    c': "cluster' = cluster\<lparr>conn_list := xs\<rparr>" and len: "length xs = length (conn_list cluster)" and
    upd: "\<forall>j<length (conn_list cluster). xs ! j =
              (if j \<in> row_conn cluster ?ht ` set (vals tt)
               then (conn_list cluster ! j)\<lparr>run_tag := tag\<rparr> else conn_list cluster ! j)" and
    rows: "\<forall>row \<in> set (vals tt). \<not> snd (SPI_getbinval row 1) \<and>
              hashval_of ?ht (fst (SPI_getbinval row 1)) \<noteq> None \<and>
              unat (mask_hash cluster (row_hashval ?ht row)) < length (part_map cluster) \<and>
              row_conn cluster ?ht row < length (conn_list cluster)"
    by blast
  have ty: "?ht \<in> {INT2OID, INT4OID, INT8OID}" if "row \<in> set (vals tt)" for row
    using rows that hashval_of_Some_type by blast
  have hp: "unat (mask_hash cluster (row_hashval ?ht row)) = hash_part cluster ?ht row"
    if "row \<in> set (vals tt)" for row
    using row_conn_hash_part [OF ty [OF that] m] .
  have rc: "row_conn cluster ?ht row = part_map cluster ! hash_part cluster ?ht row"
    if "row \<in> set (vals tt)" for row
    unfolding row_conn_def using hp [OF that] by simp
  have img: "row_conn cluster ?ht ` set (vals tt) =
             (\<lambda>row. part_map cluster ! hash_part cluster ?ht row) ` set (vals tt)"
    using rc by (auto simp: image_iff)
  have cl: "conn_list cluster' = xs" using c' by simp
  have A: "length (conn_list cluster') = length (conn_list cluster)" using cl len by simp
  have B: "\<forall>j < length (conn_list cluster).
            conn_list cluster' ! j =
              (if j \<in> (\<lambda>row. part_map cluster ! hash_part cluster ?ht row) ` set (vals tt)
               then (conn_list cluster ! j)\<lparr>run_tag := tag\<rparr>
               else conn_list cluster ! j)"
    using upd unfolding cl img .
  have C: "\<forall>row \<in> set (vals tt).
            ?ht \<in> {INT2OID, INT4OID, INT8OID} \<and>
            hash_part cluster ?ht row < length (part_map cluster) \<and>
            part_map cluster ! hash_part cluster ?ht row < length (conn_list cluster) \<and>
            run_tag (conn_list cluster' ! (part_map cluster ! hash_part cluster ?ht row)) = tag"
  proof
    fix row assume row: "row \<in> set (vals tt)"
    have i1: "hash_part cluster ?ht row < length (part_map cluster)"
      using rows row hp [OF row] by auto
    have i2: "part_map cluster ! hash_part cluster ?ht row < length (conn_list cluster)"
      using rows row rc [OF row] by auto
    have "part_map cluster ! hash_part cluster ?ht row
            \<in> (\<lambda>row. part_map cluster ! hash_part cluster ?ht row) ` set (vals tt)"
      using row by blast
    with B i2 have "conn_list cluster' ! (part_map cluster ! hash_part cluster ?ht row) =
       (conn_list cluster ! (part_map cluster ! hash_part cluster ?ht row))\<lparr>run_tag := tag\<rparr>"
      by simp
    then have "run_tag (conn_list cluster' ! (part_map cluster ! hash_part cluster ?ht row)) = tag"
      by simp
    with ty [OF row] i1 i2 show "?ht \<in> {INT2OID, INT4OID, INT8OID} \<and>
            hash_part cluster ?ht row < length (part_map cluster) \<and>
            part_map cluster ! hash_part cluster ?ht row < length (conn_list cluster) \<and>
            run_tag (conn_list cluster' ! (part_map cluster ! hash_part cluster ?ht row)) = tag"
      by blast
  qed
  from A B C show ?thesis by blast
qed

lemma demo_hash_call_Normal: "is_Normal demo_hash_call"
  unfolding demo_hash_call_def by code_simp

lemma demo_hash_query:
  "plproxy_query_exec demo_env demo_func (demo_fcinfo 6) (hash_sql demo_func) None 0 demo_world0 =
     Normal \<lparr>tupdesc = [INT4OID], vals = [[Some 6]]\<rparr> demo_world0"
  by (simp add: plproxy_query_exec_def demo_func_def demo_query_def query_arg_def PG_ARGISNULL_def
        demo_fcinfo_def demo_env_def demo_spi_def)

theorem tag_hash_partitions_tags_exactly_witness:
  "is_Normal demo_hash_call \<and>
   0 \<le> part_mask demo_cluster \<and> part_mask demo_cluster < 2 ^ 31 \<and>
   hash_part demo_cluster INT4OID [Some 6] = 2 \<and>
   run_tag (conn_list (fst (state_of demo_hash_call)) ! 2) = 1 \<and>
   conn_list (fst (state_of demo_hash_call)) ! 3 = conn_list demo_cluster ! 3"
proof -
  have n: "is_Normal demo_hash_call" by (rule demo_hash_call_Normal)
  have run: "tag_hash_partitions demo_env demo_func (demo_fcinfo 6) 1 None 0
               (demo_cluster, demo_world0) =
             Normal (value_of demo_hash_call)
               (fst (state_of demo_hash_call), snd (state_of demo_hash_call))"
    using is_Normal_eq [OF n] by (simp add: demo_hash_call_def)
  have m1: "0 \<le> part_mask demo_cluster" and m2: "part_mask demo_cluster < 2 ^ 31"
    by (simp_all add: demo_cluster_def)
  have hp: "hash_part demo_cluster INT4OID [Some 6] = 2"
    by (simp add: hash_part_def hash_int_def SPI_getbinval_def demo_cluster_def)
  have pm: "part_map demo_cluster ! 2 = 2" "part_map demo_cluster ! 3 = 3"
           "length (conn_list demo_cluster) = 4"
    by (simp_all add: demo_cluster_def)
  from tag_hash_partitions_tags_exactly [OF run demo_hash_query m1 m2]
  have a: "run_tag (conn_list (fst (state_of demo_hash_call)) ! 2) = 1"
   and b: "conn_list (fst (state_of demo_hash_call)) ! 3 = conn_list demo_cluster ! 3"
    using hp pm by (simp_all add: SPI_gettypeid_def)
  from n m1 m2 hp a b show ?thesis by blast
qed

lemma tag_hash_partitions_unfold:
  assumes q: "plproxy_query_exec E func fcinfo (hash_sql func) ap ar w = Normal tt w1"
  shows "tag_hash_partitions E func fcinfo tag ap ar (cl, w) =
     (case tag_hash_rows (SPI_gettypeid (tupdesc tt) 1) tag (vals tt) cl of
             Raised e cl' \<Rightarrow> Raised e (cl', w1)
           | Normal u cl' \<Rightarrow>
               if (length (vals tt) = 0 \<or> length (vals tt) > 1) \<and> \<not> fn_retset fcinfo
               then Raised (PlproxyError ''Only set-returning function allows hashcount <> 1'')
                      (cl', w1)
               else Normal () (cl', w1))"
  by (simp add: tag_hash_partitions_def q)

text \<open>
  C7.  Once the hash query has run: a NULL hash value makes the tagging fail; for a
  function that does not return a set, zero rows or more than one row make it fail; for a
  set-returning function any number of non-NULL integer rows is accepted, and each row's
  partition is tagged.
\<close>

theorem tag_hash_partitions_errors:
  assumes q: "plproxy_query_exec E func fcinfo (hash_sql func) array_params array_row w =
                Normal tt w1"
  shows "((\<exists>row \<in> set (vals tt). snd (SPI_getbinval row 1)) \<longrightarrow>
            is_Raised (tag_hash_partitions E func fcinfo tag array_params array_row (cluster, w))) \<and>
         (\<not> fn_retset fcinfo \<and> length (vals tt) \<noteq> 1 \<longrightarrow>
            is_Raised (tag_hash_partitions E func fcinfo tag array_params array_row (cluster, w))) \<and>
         (fn_retset fcinfo \<and> cluster_wf k cluster \<and>
          SPI_gettypeid (tupdesc tt) 1 \<in> {INT2OID, INT4OID, INT8OID} \<and>
          (\<forall>row \<in> set (vals tt). \<not> snd (SPI_getbinval row 1)) \<longrightarrow>
            is_Normal (tag_hash_partitions E func fcinfo tag array_params array_row (cluster, w)) \<and>
            (\<forall>row \<in> set (vals tt).
               run_tag (conn_list (fst (state_of
                   (tag_hash_partitions E func fcinfo tag array_params array_row (cluster, w))))
                 ! row_conn cluster (SPI_gettypeid (tupdesc tt) 1) row) = tag))"
proof -
  let ?ht = "SPI_gettypeid (tupdesc tt) 1"
  let ?call = "tag_hash_partitions E func fcinfo tag array_params array_row (cluster, w)"
  note u = tag_hash_partitions_unfold [OF q, of tag cluster]
  have A: "is_Raised ?call" if "\<exists>row \<in> set (vals tt). snd (SPI_getbinval row 1)"
  proof -
    from tag_hash_rows_null [OF that] obtain e cl' where
      "tag_hash_rows ?ht tag (vals tt) cluster = Raised e cl'" by blast
    then show ?thesis by (simp add: u)
  qed
  have B: "is_Raised ?call" if "\<not> fn_retset fcinfo \<and> length (vals tt) \<noteq> 1"
  proof (cases "tag_hash_rows ?ht tag (vals tt) cluster")
    case (Normal u' cl')
    from that have "length (vals tt) = 0 \<or> length (vals tt) > 1"
      by (cases "vals tt") auto
    with Normal that show ?thesis unfolding u by simp
  next
    case (Raised e cl')
    then show ?thesis by (simp add: u)
  qed
  have C: "is_Normal ?call \<and>
            (\<forall>row \<in> set (vals tt).
               run_tag (conn_list (fst (state_of ?call)) ! row_conn cluster ?ht row) = tag)"
    if h: "fn_retset fcinfo \<and> cluster_wf k cluster \<and> ?ht \<in> {INT2OID, INT4OID, INT8OID} \<and>
          (\<forall>row \<in> set (vals tt). \<not> snd (SPI_getbinval row 1))"
  proof -
    from h tag_hash_rows_ok [of k cluster ?ht "vals tt" tag] obtain cl' where
      r: "tag_hash_rows ?ht tag (vals tt) cluster = Normal () cl'" by blast
    with h have c: "?call = Normal () (cl', w1)" by (simp add: u)
    from tag_hash_rows_Normal [OF r] obtain xs where
      c': "cl' = cluster\<lparr>conn_list := xs\<rparr>" and
      upd: "\<forall>j<length (conn_list cluster). xs ! j =
              (if j \<in> row_conn cluster ?ht ` set (vals tt)
               then (conn_list cluster ! j)\<lparr>run_tag := tag\<rparr> else conn_list cluster ! j)" and
      rows: "\<forall>row \<in> set (vals tt). row_conn cluster ?ht row < length (conn_list cluster)"
      by blast
    have "run_tag (conn_list cl' ! row_conn cluster ?ht row) = tag" if "row \<in> set (vals tt)" for row
    proof -
      from rows that have "row_conn cluster ?ht row < length (conn_list cluster)" by blast
      moreover have "row_conn cluster ?ht row \<in> row_conn cluster ?ht ` set (vals tt)"
        using that by blast
      ultimately have "xs ! row_conn cluster ?ht row =
          (conn_list cluster ! row_conn cluster ?ht row)\<lparr>run_tag := tag\<rparr>" using upd by simp
      then show ?thesis using c' by simp
    qed
    then show ?thesis unfolding c by simp
  qed
  from A B C show ?thesis by blast
qed

lemma cluster_wf_demo: "cluster_wf 2 demo_cluster"
  by (simp add: cluster_wf_def demo_cluster_def)

lemma null_hash_query:
  "plproxy_query_exec null_hash_env demo_func (demo_fcinfo 6) (hash_sql demo_func) None 0 demo_world0 =
     Normal \<lparr>tupdesc = [INT4OID], vals = [[None]]\<rparr> demo_world0"
  by (simp add: plproxy_query_exec_def demo_func_def demo_query_def query_arg_def PG_ARGISNULL_def
        demo_fcinfo_def demo_env_def null_hash_env_def)

lemma two_rows_query:
  "plproxy_query_exec two_rows_env demo_func fcinfo (hash_sql demo_func) None 0 demo_world0 =
     Normal \<lparr>tupdesc = [INT4OID], vals = [[Some 1], [Some 6]]\<rparr> demo_world0"
  by (simp add: plproxy_query_exec_def demo_func_def demo_query_def query_arg_def PG_ARGISNULL_def
        demo_env_def two_rows_env_def split: option.splits)

theorem tag_hash_partitions_errors_witness:
  "is_Raised (tag_hash_partitions null_hash_env demo_func (demo_fcinfo 6) 1 None 0
                (demo_cluster, demo_world0)) \<and>
   is_Raised (tag_hash_partitions two_rows_env demo_func (demo_fcinfo 6) 1 None 0
                (demo_cluster, demo_world0)) \<and>
   is_Normal (tag_hash_partitions two_rows_env demo_func ((demo_fcinfo 6)\<lparr>fn_retset := True\<rparr>) 1
                None 0 (demo_cluster, demo_world0)) \<and>
   run_tag (conn_list (fst (state_of
      (tag_hash_partitions two_rows_env demo_func ((demo_fcinfo 6)\<lparr>fn_retset := True\<rparr>) 1
                None 0 (demo_cluster, demo_world0)))) ! row_conn demo_cluster INT4OID [Some 1]) = 1"
proof -
  have a: "is_Raised (tag_hash_partitions null_hash_env demo_func (demo_fcinfo 6) 1 None 0
                (demo_cluster, demo_world0))"
    using tag_hash_partitions_errors [OF null_hash_query, of 1 demo_cluster 2]
    by (simp add: SPI_getbinval_def)
  have b: "is_Raised (tag_hash_partitions two_rows_env demo_func (demo_fcinfo 6) 1 None 0
                (demo_cluster, demo_world0))"
    using tag_hash_partitions_errors [OF two_rows_query, of "demo_fcinfo 6" 1 demo_cluster 2]
    by (simp add: demo_fcinfo_def)
  have c: "is_Normal (tag_hash_partitions two_rows_env demo_func ((demo_fcinfo 6)\<lparr>fn_retset := True\<rparr>) 1
                None 0 (demo_cluster, demo_world0)) \<and>
   run_tag (conn_list (fst (state_of
      (tag_hash_partitions two_rows_env demo_func ((demo_fcinfo 6)\<lparr>fn_retset := True\<rparr>) 1
                None 0 (demo_cluster, demo_world0)))) ! row_conn demo_cluster INT4OID [Some 1]) = 1"
    using tag_hash_partitions_errors [OF two_rows_query, of "(demo_fcinfo 6)\<lparr>fn_retset := True\<rparr>" 1 demo_cluster 2]
      cluster_wf_demo
    by (simp add: SPI_getbinval_def SPI_gettypeid_def INT4OID_def INT2OID_def INT8OID_def)
  from a b c show ?thesis by blast
qed

section \<open>Sending the query\<close>

lemma cmp_branch_from_iff:
  "cmp_branch_from dot this that \<longleftrightarrow> branch_from dot this = branch_from dot that"
  by (induction dot this that rule: cmp_branch_from.induct) auto

lemma cmp_branch_iff:
  "cmp_branch this that \<longleftrightarrow> branch_from 0 this = branch_from 0 that"
  by (simp add: cmp_branch_def cmp_branch_from_iff)

lemma binary_result_iff:
  assumes "ret_scalar func \<noteq> None \<or> ret_composite func \<noteq> None"
  shows "binary_result cf conn func =
           Some (if disable_binary cf = 0 \<and> same_ver conn \<and> supports_binary func then 1 else 0)"
  using assms by (auto simp: binary_result_def supports_binary_def split: option.splits)

lemma tune_connection_same_ver:
  assumes "tune_connection E (conn, w) = Normal r (conn', w')"
  shows "PQparameterStatus E (db conn) ''server_version'' w \<noteq> None \<and>
         same_ver conn' =
           cmp_branch (the (PQparameterStatus E (db conn) ''server_version'' w)) (PG_VERSION E)"
  using assms
  by (auto simp: tune_connection_def flush_connection_def Let_def
           split: option.splits if_splits prod.splits outcome.splits)

text \<open>
  C6.  When \<^verbatim>\<open>send_query\<close> submits the remote query (the connection needs no tuning
  query), the result format it passes to \<^verbatim>\<open>PQsendQueryParams\<close> is 1 (binary) exactly if
  \<^verbatim>\<open>disable_binary\<close> is 0, \<^verbatim>\<open>same_ver\<close> holds, which \<^verbatim>\<open>tune_connection\<close> has just set
  to whether the remote and local versions agree up to the second dot, and the return type
  supports binary receive; otherwise it is 0 (text).
\<close>

theorem send_query_result_format:
  assumes ret: "ret_scalar func \<noteq> None \<or> ret_composite func \<noteq> None"
      and now: "gettimeofday E w = (now, w1)"
      and tune: "tune_connection E (conn\<lparr>query_time := now\<rparr>, w1) = Normal r (conn2, w2)"
      and nt: "\<not> tuning conn2"
  shows "send_query E func cf (conn, w) =
           (case PQsendQueryParams E (db conn2) (sql (remote_sql func))
                   (arg_count (remote_sql func)) (param_values conn2) (param_lengths conn2)
                   (param_formats conn2)
                   (if disable_binary cf = 0 \<and> same_ver conn2 \<and> supports_binary func
                    then 1 else 0) w2 of
              (ok, w3) \<Rightarrow>
                if \<not> ok
                then Raised (PlproxyError ''PQsendQueryParams'') (conn2\<lparr>state := C_QUERY_WRITE\<rparr>, w3)
                else flush_connection E (conn2\<lparr>state := C_QUERY_WRITE\<rparr>, w3)) \<and>
         (same_ver conn2 \<longleftrightarrow>
            branch_from 0 (the (PQparameterStatus E (db conn) ''server_version'' w1)) =
            branch_from 0 (PG_VERSION E))"
proof -
  have "send_query E func cf (conn, w) =
           (case PQsendQueryParams E (db conn2) (sql (remote_sql func))
                   (arg_count (remote_sql func)) (param_values conn2) (param_lengths conn2)
                   (param_formats conn2)
                   (if disable_binary cf = 0 \<and> same_ver conn2 \<and> supports_binary func
                    then 1 else 0) w2 of
              (ok, w3) \<Rightarrow>
                if \<not> ok
                then Raised (PlproxyError ''PQsendQueryParams'') (conn2\<lparr>state := C_QUERY_WRITE\<rparr>, w3)
                else flush_connection E (conn2\<lparr>state := C_QUERY_WRITE\<rparr>, w3))"
    unfolding send_query_def by (simp add: now tune nt binary_result_iff [OF ret])
  moreover have "same_ver conn2 \<longleftrightarrow>
            branch_from 0 (the (PQparameterStatus E (db conn) ''server_version'' w1)) =
            branch_from 0 (PG_VERSION E)"
    using tune_connection_same_ver [OF tune] by (simp add: cmp_branch_iff)
  ultimately show ?thesis by blast
qed

lemma demo_tune:
  "tune_connection demo_env ((demo_conn 0)\<lparr>query_time := 0\<rparr>, demo_world0) =
     Normal 0 ((demo_conn 0)\<lparr>query_time := 0, same_ver := True, tuning := False\<rparr>, demo_world0)"
  by (simp add: tune_connection_def demo_env_def demo_conn_def cmp_branch_def)

theorem send_query_result_format_witness:
  "ret_scalar demo_func = Some demo_type \<and>
   gettimeofday demo_env demo_world0 = (0, demo_world0) \<and>
   disable_binary (config demo_cluster) = 0 \<and> supports_binary demo_func \<and>
   branch_from 0 ''9.6.3'' = branch_from 0 (PG_VERSION demo_env) \<and>
   is_Normal demo_send \<and> requested (snd (state_of demo_send)) = [1]"
proof -
  have ret: "ret_scalar demo_func \<noteq> None \<or> ret_composite demo_func \<noteq> None"
    by (simp add: demo_func_def)
  have now: "gettimeofday demo_env demo_world0 = (0, demo_world0)"
    by (simp add: demo_env_def demo_world0_def)
  have nt: "\<not> tuning ((demo_conn 0)\<lparr>query_time := 0, same_ver := True, tuning := False\<rparr>)" by simp
  have db: "disable_binary (config demo_cluster) = 0" by (simp add: demo_cluster_def)
  have sb: "supports_binary demo_func" by (simp add: supports_binary_def demo_func_def demo_type_def)
  have br: "branch_from 0 ''9.6.3'' = branch_from 0 (PG_VERSION demo_env)"
    by (simp add: demo_env_def)
  from send_query_result_format [OF ret now demo_tune nt, of "config demo_cluster"]
  have "is_Normal demo_send \<and> requested (snd (state_of demo_send)) = [1]"
    unfolding demo_send_def
    by (simp add: db sb demo_env_def flush_connection_def demo_world0_def)
  moreover have "ret_scalar demo_func = Some demo_type" by (simp add: demo_func_def)
  ultimately show ?thesis using now db sb br by blast
qed

section \<open>Preparing a connection\<close>

lemma launch_conn_Normal:
  assumes "launch_conn E now (conn, w) = Normal u (conn', w')"
  shows "state conn' = C_CONNECT_WRITE \<and> connect_time conn' = now \<and> db conn' \<noteq> None \<and>
         tuning conn' = tuning conn \<and>
         (\<exists>w2. w' = PQsetNoticeReceiver E (db conn') w2)"
  using assms by (auto simp: launch_conn_def split: prod.splits if_splits)

text \<open>
  C10, as the code has it.  When \<^verbatim>\<open>prepare_conn\<close> returns without an error, the connection
  is either in \<^verbatim>\<open>C_READY\<close>: it came in \<^verbatim>\<open>C_READY\<close> or \<^verbatim>\<open>C_DONE\<close>, passed
  \<^verbatim>\<open>check_old_conn\<close>, and nothing but the state has changed; or it is in
  \<^verbatim>\<open>C_CONNECT_WRITE\<close> with a new handle, \<^verbatim>\<open>connect_time\<close> set to now and the notice
  receiver installed.  In the second case \<^verbatim>\<open>tuning\<close> is cleared if the connection came
  in another state than \<^verbatim>\<open>C_NONE\<close>; a connection that came in \<^verbatim>\<open>C_NONE\<close> skips the
  drop and keeps its \<^verbatim>\<open>tuning\<close> flag.
\<close>

theorem prepare_conn_states:
  assumes run: "prepare_conn E cf (conn, w) = Some (Normal u (conn', w'))"
  shows "(state conn' = C_READY \<and> (state conn = C_READY \<or> state conn = C_DONE) \<and>
          conn' = conn\<lparr>state := C_READY\<rparr> \<and>
          check_old_conn E cf (conn\<lparr>state := C_READY\<rparr>) (fst (gettimeofday E w))
            (snd (gettimeofday E w)) = Some (Normal True w')) \<or>
         (state conn' = C_CONNECT_WRITE \<and> connect_time conn' = fst (gettimeofday E w) \<and>
          db conn' \<noteq> None \<and>
          (\<exists>w2. w' = PQsetNoticeReceiver E (db conn') w2) \<and>
          (state conn \<noteq> C_NONE \<longrightarrow> \<not> tuning conn') \<and>
          (state conn = C_NONE \<longrightarrow> tuning conn' = tuning conn))"
proof -
  obtain now w1 where g: "gettimeofday E w = (now, w1)" by (cases "gettimeofday E w")
  consider (old) "state conn = C_DONE \<or> state conn = C_READY"
    | (none) "state conn = C_NONE"
    | (busy) "state conn \<noteq> C_DONE" "state conn \<noteq> C_READY" "state conn \<noteq> C_NONE"
    by blast
  then show ?thesis
  proof cases
    case old
    from run old g obtain keep w2 where
      c: "check_old_conn E cf (conn\<lparr>state := C_READY\<rparr>) now w1 = Some (Normal keep w2)"
      by (auto simp: prepare_conn_def split: option.splits outcome.splits)
    show ?thesis
    proof (cases keep)
      case True
      with run old g c have "conn' = conn\<lparr>state := C_READY\<rparr>" "w' = w2"
        by (auto simp: prepare_conn_def)
      with c True old g show ?thesis by auto
    next
      case False
      with run old g c have
        l: "launch_conn E now (drop_conn E (conn\<lparr>state := C_READY\<rparr>, w2)) = Normal u (conn', w')"
        by (auto simp: prepare_conn_def)
      from launch_conn_Normal [OF l [unfolded drop_conn_def prod.case]] old g
      show ?thesis by auto
    qed
  next
    case none
    with run g have l: "launch_conn E now (conn, w1) = Normal u (conn', w')"
      by (auto simp: prepare_conn_def)
    from launch_conn_Normal [OF l] none g show ?thesis by auto
  next
    case busy
    with run g have l: "launch_conn E now (drop_conn E (conn, w1)) = Normal u (conn', w')"
      by (auto simp: prepare_conn_def)
    from launch_conn_Normal [OF l [unfolded drop_conn_def prod.case]] busy g
    show ?thesis by auto
  qed
qed

lemma returned_normally_eq:
  "returned_normally r \<Longrightarrow> r = Some (Normal (value_of (the r)) (state_of (the r)))"
  by (auto simp: returned_normally_def split: option.splits outcome.splits)

lemma demo_prepare_done: "returned_normally (demo_prepare ((demo_conn 0)\<lparr>state := C_DONE\<rparr>))"
  unfolding demo_prepare_def by code_simp

lemma demo_prepare_busy: "returned_normally (demo_prepare ((demo_conn 0)\<lparr>state := C_QUERY_READ, tuning := True\<rparr>))"
  unfolding demo_prepare_def by code_simp

lemma demo_prepare_none: "returned_normally (demo_prepare unconnected_tuning_conn)"
  unfolding demo_prepare_def by code_simp

theorem prepare_conn_states_witness:
  "returned_normally (demo_prepare ((demo_conn 0)\<lparr>state := C_DONE\<rparr>)) \<and>
   fst (state_of (the (demo_prepare ((demo_conn 0)\<lparr>state := C_DONE\<rparr>)))) = demo_conn 0 \<and>
   returned_normally (demo_prepare ((demo_conn 0)\<lparr>state := C_QUERY_READ, tuning := True\<rparr>)) \<and>
   state (fst (state_of (the (demo_prepare ((demo_conn 0)\<lparr>state := C_QUERY_READ, tuning := True\<rparr>)))))
     = C_CONNECT_WRITE \<and>
   \<not> tuning (fst (state_of (the (demo_prepare ((demo_conn 0)\<lparr>state := C_QUERY_READ, tuning := True\<rparr>))))) \<and>
   returned_normally (demo_prepare unconnected_tuning_conn) \<and>
   tuning (fst (state_of (the (demo_prepare unconnected_tuning_conn)))) =
     tuning unconnected_tuning_conn"
proof -
  let ?c = unconnected_tuning_conn
  have rc: "prepare_conn demo_env (config demo_cluster) (?c, demo_world0) =
              Some (Normal (value_of (the (demo_prepare ?c)))
                 (fst (state_of (the (demo_prepare ?c))), snd (state_of (the (demo_prepare ?c)))))"
    using returned_normally_eq [OF demo_prepare_none] by (simp add: demo_prepare_def)
  have sc: "state ?c = C_NONE" by (simp add: unconnected_tuning_conn_def)
  from prepare_conn_states [OF rc] sc
  have c: "tuning (fst (state_of (the (demo_prepare ?c)))) = tuning ?c"
    by auto
  let ?a = "(demo_conn 0)\<lparr>state := C_DONE\<rparr>"
  let ?b = "(demo_conn 0)\<lparr>state := C_QUERY_READ, tuning := True\<rparr>"
  have ra: "prepare_conn demo_env (config demo_cluster) (?a, demo_world0) =
              Some (Normal (value_of (the (demo_prepare ?a)))
                 (fst (state_of (the (demo_prepare ?a))), snd (state_of (the (demo_prepare ?a)))))"
    using returned_normally_eq [OF demo_prepare_done] by (simp add: demo_prepare_def)
  have rb: "prepare_conn demo_env (config demo_cluster) (?b, demo_world0) =
              Some (Normal (value_of (the (demo_prepare ?b)))
                 (fst (state_of (the (demo_prepare ?b))), snd (state_of (the (demo_prepare ?b)))))"
    using returned_normally_eq [OF demo_prepare_busy] by (simp add: demo_prepare_def)
  have sa: "state (fst (state_of (the (demo_prepare ?a)))) = C_READY"
    unfolding demo_prepare_def by code_simp
  from prepare_conn_states [OF ra] sa
  have "fst (state_of (the (demo_prepare ?a))) = ?a\<lparr>state := C_READY\<rparr>"
    by auto
  then have a: "fst (state_of (the (demo_prepare ?a))) = demo_conn 0"
    by (simp add: demo_conn_def)
  from prepare_conn_states [OF rb]
  have b: "state (fst (state_of (the (demo_prepare ?b)))) = C_CONNECT_WRITE \<and>
           \<not> tuning (fst (state_of (the (demo_prepare ?b))))"
    by (auto simp: demo_conn_def)
  from a b c demo_prepare_done demo_prepare_busy demo_prepare_none show ?thesis by blast
qed

theorem prepare_conn_keeps_tuning_counterexample:
  "returned_normally (demo_prepare unconnected_tuning_conn) \<and>
   state (fst (state_of (the (demo_prepare unconnected_tuning_conn)))) = C_CONNECT_WRITE \<and>
   tuning (fst (state_of (the (demo_prepare unconnected_tuning_conn))))"
  unfolding demo_prepare_def by code_simp

section \<open>The poll loop without events\<close>

lemma poll_conns_no_event:
  assumes "fst (pfd_cache_reserve E (length (conn_list cluster)) w)"
      and "\<And>fds t w'. fst (fst (sys_poll E fds t w')) = 0"
  shows "\<exists>w'. poll_conns E (cluster, w) = Some (Normal 0 (cluster, w'))"
proof -
  obtain ok w0 where r: "pfd_cache_reserve E (length (conn_list cluster)) w = (ok, w0)"
    by (cases "pfd_cache_reserve E (length (conn_list cluster)) w")
  with assms(1) have ok: ok by simp
  obtain n revents eintr w1 where
    p: "sys_poll E (poll_fds E w0 (conn_list cluster)) 1000 w0 = ((n, revents, eintr), w1)"
    by (metis prod.exhaust)
  with assms(2) [of "poll_fds E w0 (conn_list cluster)" 1000 w0] have n: "n = 0" by simp
  show ?thesis unfolding poll_conns_def by (simp add: r ok p n)
qed

lemma execute_loop_no_event:
  assumes int: "\<And>w. fst (check_interrupts E w) = None"
      and mem: "\<And>n w. fst (pfd_cache_reserve E n w)"
      and quiet: "\<And>fds t w. fst (fst (sys_poll E fds t w)) = 0"
      and pending: "pending \<noteq> 0"
  shows "execute_loop E func pending s = None"
proof (rule ccontr)
  assume "execute_loop E func pending s \<noteq> None"
  then obtain y where y: "execute_loop E func pending s = Some y" by blast
  have "E = E \<longrightarrow> pending = 0"
  proof (rule execute_loop.raw_induct
           [where P = "\<lambda>E' f p s y. E' = E \<longrightarrow> p = 0", OF _ y], goal_cases)
    case (1 loop E' f p s' y')
    note IH = 1(1) and body = 1(2)
    show ?case
    proof (intro impI, rule ccontr)
      assume E: "E' = E" and p: "p \<noteq> 0"
      obtain cluster w where s: "s' = (cluster, w)" by (cases s')
      obtain w1 where c: "check_interrupts E w = (None, w1)"
        using int [of w] by (cases "check_interrupts E w") auto
      from poll_conns_no_event [OF mem quiet] obtain w2 where
        pc: "poll_conns E (cluster, w1) = Some (Normal 0 (cluster, w2))" by blast
      from body have "loop E f p (cluster, w2) = Some y'"
        by (simp add: E p s c pc)
      from IH [OF this] p show False by blast
    qed
  qed
  with pending show False by blast
qed

lemma check_timeouts_query:
  assumes "state conn = C_QUERY_READ \<or> state conn = C_QUERY_WRITE"
  shows "check_timeouts cf conn now =
           (if 0 < query_timeout cf \<and> query_timeout cf < now - query_time conn
            then Some (PlproxyError ''query timeout'') else None)"
  using assms by (auto simp: check_timeouts_def)

lemma silent_env_quiet:
  "fst (check_interrupts silent_env w) = None"
  "fst (pfd_cache_reserve silent_env n w)"
  "fst (fst (sys_poll silent_env fds t w)) = 0"
  by (simp_all add: silent_env_def demo_env_def)

lemma silent_tagged_Normal: "is_Normal silent_tagged"
  unfolding silent_tagged_def by code_simp

lemma silent_bound_Normal: "is_Normal silent_bound"
  unfolding silent_bound_def silent_tagged_def by code_simp

lemma silent_primed_Normal:
  "returned_normally silent_primed \<and> fst (fst (state_of (the silent_primed))) = 1"
  unfolding silent_primed_def silent_bound_def silent_tagged_def by code_simp

lemma silent_primed_query_read:
  "map (\<lambda>conn. (run_tag conn, state conn, query_time conn)) (snd (state_of (the silent_primed))) =
     [(0, C_READY, 0), (0, C_READY, 0), (1, C_QUERY_READ, 0), (0, C_READY, 0)]"
  unfolding silent_primed_def silent_bound_def silent_tagged_def by code_simp

text \<open>
  C8, on the code.  With \<^verbatim>\<open>query_timeout = 1\<close>, the connection of partition 2 armed and in
  \<^verbatim>\<open>C_QUERY_READ\<close>, and a server that never answers, every \<^verbatim>\<open>poll\<close> ends after its
  second with 0, \<^verbatim>\<open>poll_conns\<close> returns 0 and \<^verbatim>\<open>remote_execute\<close> goes on to the next
  round before it reaches \<^verbatim>\<open>check_timeouts\<close>: the call never returns, so it never
  raises the query timeout.
\<close>

theorem query_timeout_never_raised:
  "plproxy_exec silent_env demo_func (demo_fcinfo 6) (demo_cluster, demo_world0) = None"
proof -
  have "silent_tagged = Normal () (fst (state_of silent_tagged), snd (state_of silent_tagged))"
    using is_Normal_eq [OF silent_tagged_Normal] by simp
  then obtain c1 w1 where t1: "silent_tagged = Normal () (c1, w1)" by blast
  have "silent_bound = Normal () (state_of silent_bound)"
    using is_Normal_eq [OF silent_bound_Normal] by simp
  then obtain c2 where t2: "silent_bound = Normal () c2" by blast
  have "silent_primed = Some (Normal () (state_of (the silent_primed)))"
    using returned_normally_eq [of silent_primed] silent_primed_Normal by simp
  then obtain pending w3 conns where t3: "silent_primed = Some (Normal () ((pending, w3), conns))"
    by (metis prod.exhaust)
  have p: "pending = 1" using silent_primed_Normal unfolding t3 by simp
  have b: "prepare_query_parameters silent_env demo_func (demo_fcinfo 6) c1 = Normal () c2"
    using t2 unfolding silent_bound_def t1 by simp
  have a: "foreach_conn_opt (launch_or_send silent_env demo_func (config c2)) (0, w1) []
             (conn_list c2) = Some (Normal () ((pending, w3), conns))"
    using t3 unfolding silent_primed_def t1 t2 by simp
  have l: "execute_loop silent_env demo_func pending (c2\<lparr>conn_list := conns\<rparr>, w3) = None"
    by (rule execute_loop_no_event) (simp_all add: silent_env_quiet p)
  have "remote_execute silent_env demo_func (c2, w1) = None"
    unfolding remote_execute_def by (simp add: a l)
  then have "plproxy_exec_try silent_env demo_func (demo_fcinfo 6) (demo_cluster, demo_world0) = None"
    unfolding plproxy_exec_try_def using t1 [unfolded silent_tagged_def] b by simp
  then show ?thesis unfolding plproxy_exec_def by simp
qed

section \<open>The review of the results\<close>

lemma foreach_conn_Normal:
  assumes "foreach_conn body a seen todo = Normal u (a', conns)"
      and "\<And>a c u a' c'. body (a, c) = Normal u (a', c') \<Longrightarrow> P c c'"
  shows "\<exists>conns'. conns = seen @ conns' \<and> list_all2 P todo conns'"
  using assms(1)
proof (induction todo arbitrary: a seen)
  case Nil
  then show ?case by simp
next
  case (Cons conn rest)
  from Cons.prems obtain a1 c1 where
    b: "body (a, conn) = Normal () (a1, c1)" and
    r: "foreach_conn body a1 (seen @ [c1]) rest = Normal u (a', conns)"
    by (auto split: outcome.splits)
  from Cons.IH [OF r] obtain conns' where
    "conns = (seen @ [c1]) @ conns'" "list_all2 P rest conns'" by blast
  with assms(2) [OF b] show ?case by auto
qed

lemma review_conn_Normal:
  assumes "review_conn (tot, conn) = Normal u (tot', conn')"
  shows "conn' = conn \<and> reviewed conn"
  using assms
  by (auto simp: review_conn_def reviewed_def split: if_splits option.splits)

lemma review_results_Normal:
  assumes "review_results cluster = Normal u cluster'"
  shows "conn_list cluster' = conn_list cluster \<and> (\<forall>conn \<in> set (conn_list cluster). reviewed conn)"
proof -
  from assms obtain tot conns where
    f: "foreach_conn review_conn (ret_total cluster) [] (conn_list cluster) = Normal () (tot, conns)"
    and c: "cluster' = cluster\<lparr>conn_list := conns, ret_total := tot\<rparr>"
    by (auto simp: review_results_def split: outcome.splits)
  have "\<exists>conns'. conns = [] @ conns' \<and>
          list_all2 (\<lambda>c c'. c' = c \<and> reviewed c) (conn_list cluster) conns'"
    by (rule foreach_conn_Normal [OF f]) (use review_conn_Normal in blast)
  then have l: "list_all2 (\<lambda>c c'. c' = c \<and> reviewed c) (conn_list cluster) conns" by simp
  then have e: "conns = conn_list cluster"
    by (induction rule: list_all2_induct) auto
  from l have "\<forall>conn \<in> set (conn_list cluster). reviewed conn"
    by (induction rule: list_all2_induct) auto
  with c e show ?thesis by simp
qed

lemma remote_execute_Normal:
  assumes "remote_execute E func s = Some (Normal u (cluster', w'))"
  shows "\<exists>cluster2. review_results cluster2 = Normal () cluster'"
  using assms
  by (auto simp: remote_execute_def with_world_def
           split: prod.splits option.splits outcome.splits)

lemma plproxy_exec_Normal:
  assumes "plproxy_exec E func fcinfo s = Some (Normal u (cluster', w'))"
  shows "\<exists>cluster2 cluster3. review_results cluster2 = Normal () cluster3 \<and>
           cluster' = cluster3\<lparr>busy := False\<rparr>"
proof -
  from assms have t: "plproxy_exec_try E func fcinfo s = Some (Normal u (cluster', w'))"
    by (auto simp: plproxy_exec_def split: option.splits outcome.splits)
  then obtain s4 cluster3 w3 where
    r: "remote_execute E func s4 = Some (Normal () (cluster3, w3))" and
    c: "cluster' = cluster3\<lparr>busy := False\<rparr>"
    by (auto simp: plproxy_exec_try_def split: prod.splits option.splits outcome.splits)
  from remote_execute_Normal [OF r] obtain cluster2 where
    "review_results cluster2 = Normal () cluster3" by blast
  with c show ?thesis by blast
qed

text \<open>
  C1.  When \<^verbatim>\<open>plproxy_exec\<close> returns normally, every connection with a nonzero
  \<^verbatim>\<open>run_tag\<close> is in \<^verbatim>\<open>C_DONE\<close> and holds a result of status \<^verbatim>\<open>PGRES_TUPLES_OK\<close>,
  and every connection that holds a result has a nonzero \<^verbatim>\<open>run_tag\<close>.  A cluster that
  reaches the review with a connection whose \<^verbatim>\<open>run_tag\<close> and result disagree does not
  pass it: the review raises an error.  The result is the only one: \<^verbatim>\<open>another_result\<close>
  raises an error when a second tuple result arrives on a connection that holds one.
\<close>

theorem plproxy_exec_pairing:
  "(plproxy_exec E func fcinfo s = Some (Normal u (cluster', w')) \<longrightarrow>
      (\<forall>conn \<in> set (conn_list cluster').
         (run_tag conn \<noteq> 0 \<longrightarrow>
            state conn = C_DONE \<and>
            (\<exists>r. res conn = Some r \<and> resultStatus r = PGRES_TUPLES_OK)) \<and>
         (res conn \<noteq> None \<longrightarrow> run_tag conn \<noteq> 0))) \<and>
   ((\<exists>conn \<in> set (conn_list cluster). (run_tag conn = 0) \<noteq> (res conn = None)) \<longrightarrow>
      is_Raised (review_results cluster)) \<and>
   (res c \<noteq> None \<and> resultStatus r = PGRES_TUPLES_OK \<and>
    PQgetResult E (db c) w = (Some r, w1) \<longrightarrow>
      is_Raised (another_result E (c, w)))"
proof -
  have A: "\<forall>conn \<in> set (conn_list cluster').
         (run_tag conn \<noteq> 0 \<longrightarrow>
            state conn = C_DONE \<and>
            (\<exists>r. res conn = Some r \<and> resultStatus r = PGRES_TUPLES_OK)) \<and>
         (res conn \<noteq> None \<longrightarrow> run_tag conn \<noteq> 0)"
    if run: "plproxy_exec E func fcinfo s = Some (Normal u (cluster', w'))"
  proof -
    from plproxy_exec_Normal [OF run] obtain cluster2 cluster3 where
      r: "review_results cluster2 = Normal () cluster3" and c: "cluster' = cluster3\<lparr>busy := False\<rparr>"
      by blast
    from review_results_Normal [OF r] c have
      "\<forall>conn \<in> set (conn_list cluster'). reviewed conn" by simp
    then show ?thesis
      by (auto simp: reviewed_def split: if_splits option.splits)
  qed
  have B: "is_Raised (review_results cluster)"
    if m: "\<exists>conn \<in> set (conn_list cluster). (run_tag conn = 0) \<noteq> (res conn = None)"
  proof (cases "review_results cluster")
    case (Normal u1 c1)
    from review_results_Normal [OF Normal] have "\<forall>conn \<in> set (conn_list cluster). reviewed conn"
      by simp
    with m show ?thesis by (auto simp: reviewed_def split: if_splits option.splits)
  next
    case (Raised e c1)
    then show ?thesis by simp
  qed
  have C: "is_Raised (another_result E (c, w))"
    if "res c \<noteq> None \<and> resultStatus r = PGRES_TUPLES_OK \<and>
        PQgetResult E (db c) w = (Some r, w1)"
    using that by (auto simp: another_result_def)
  from A B C show ?thesis by blast
qed

lemma demo_exec_Normal: "returned_normally demo_exec"
  unfolding demo_exec_def by code_simp

lemma demo_exec_armed:
  "length (conn_list (fst (state_of (the demo_exec)))) = 4 \<and>
   run_tag (conn_list (fst (state_of (the demo_exec))) ! 2) = 1"
  unfolding demo_exec_def by code_simp

theorem plproxy_exec_pairing_witness:
  "returned_normally demo_exec \<and>
   state (conn_list (fst (state_of (the demo_exec))) ! 2) = C_DONE \<and>
   map_option resultStatus (res (conn_list (fst (state_of (the demo_exec))) ! 2))
     = Some PGRES_TUPLES_OK \<and>
   is_Raised (review_results lost_result_cluster) \<and>
   is_Raised (review_results stray_result_cluster) \<and>
   is_Raised (another_result demo_env ((demo_conn 0)\<lparr>res := Some demo_result\<rparr>, demo_world0))"
proof -
  let ?c = "fst (state_of (the demo_exec))"
  have run: "plproxy_exec demo_env demo_func (demo_fcinfo 6) (demo_cluster, demo_world0) =
               Some (Normal (value_of (the demo_exec)) (?c, snd (state_of (the demo_exec))))"
    using returned_normally_eq [OF demo_exec_Normal] by (simp add: demo_exec_def)
  have mem: "conn_list ?c ! 2 \<in> set (conn_list ?c)" using demo_exec_armed by simp
  have tag: "run_tag (conn_list ?c ! 2) \<noteq> 0" using demo_exec_armed by simp
  note inst = plproxy_exec_pairing [of demo_env demo_func "demo_fcinfo 6" "(demo_cluster, demo_world0)"
      "value_of (the demo_exec)" ?c "snd (state_of (the demo_exec))"]
  from inst [of lost_result_cluster] run mem tag
  have a: "state (conn_list ?c ! 2) = C_DONE \<and>
           map_option resultStatus (res (conn_list ?c ! 2)) = Some PGRES_TUPLES_OK"
    by auto
  from inst [of lost_result_cluster]
  have b: "is_Raised (review_results lost_result_cluster)"
    by (simp add: lost_result_cluster_def demo_conn_def)
  from inst [of demo_cluster "(demo_conn 0)\<lparr>res := Some demo_result\<rparr>" demo_result demo_world0
              "demo_world0\<lparr>delivered := [0]\<rparr>"]
  have d: "is_Raised (another_result demo_env ((demo_conn 0)\<lparr>res := Some demo_result\<rparr>, demo_world0))"
    by (simp add: demo_result_def demo_env_def demo_conn_def demo_world0_def)
  from inst [of stray_result_cluster]
  have c: "is_Raised (review_results stray_result_cluster)"
    by (simp add: stray_result_cluster_def demo_conn_def)
  from a b c d demo_exec_Normal show ?thesis by blast
qed

section \<open>Cleaning the results\<close>








section \<open>The two split paths\<close>

lemma split_value_state_run_tag [simp]:
  "run_tag (state_of (split_value func arrays conn row)) = run_tag conn"
  by (simp add: split_value_def Let_def split: outcome.splits)

lemma sint_split_row:
  assumes "i < 2 ^ 31"
  shows "sint (word_of_nat i :: 32 word) = int i"
proof -
  have "sint (word_of_int (int i) :: 32 word) = signed_take_bit (LENGTH(32) - 1) (int i)"
    by (rule sint_sbintrunc')
  also have "\<dots> = int i"
    using assms by (simp add: signed_take_bit_int_eq_self)
  finally show ?thesis by simp
qed

lemma split_tag_inj:
  assumes "i < 2 ^ 31" "j < 2 ^ 31"
  shows "(word_of_nat i + 1 :: 32 word) = word_of_nat j + 1 \<longleftrightarrow> i = j"
proof -
  have "(word_of_nat i :: 32 word) = word_of_nat j \<longleftrightarrow> i = j"
    using assms by (simp add: word_of_nat_eq_iff take_bit_nat_eq_self)
  then show ?thesis by simp
qed

lemma ucast_index_datum:
  "(ucast (word_of_nat n :: 64 word) :: 32 word) = word_of_nat n"
  by (rule bit_word_eqI) (auto simp: bit_simps)

lemma get_int_index:
  "get_int (split_hash_row 1 h i) 1 INT4OID = Inr (word_of_nat i + 1)"
proof -
  have w: "(word_of_int (1 + int i) :: 64 word) = word_of_nat (i + 1)" by simp
  have "(ucast (word_of_nat (i + 1) :: 64 word) :: 32 word) = word_of_nat (i + 1)"
    by (rule ucast_index_datum)
  also have "\<dots> = word_of_nat i + 1" by simp
  finally have u: "(ucast (word_of_nat (i + 1) :: 64 word) :: 32 word) = word_of_nat i + 1" .
  have "SPI_getbinval (split_hash_row 1 h i) 1 = (word_of_nat (i + 1), False)"
    unfolding SPI_getbinval_def split_hash_row_def w by simp
  then show ?thesis unfolding get_int_def by (simp only: u prod.case if_False if_True simp_thms)
qed

lemma get_int_index_Suc:
  "get_int (split_hash_row 1 h i) (Suc 0) INT4OID = Inr (word_of_nat i + 1)"
  using get_int_index [of h i] by simp

lemma get_int_hash:
  assumes "htype \<in> {INT2OID, INT4OID, INT8OID}"
  shows "get_int (split_hash_row lb h i) 2 htype = Inr (the (hashval_of htype (h i)))"
proof -
  have "SPI_getbinval (split_hash_row lb h i) 2 = (h i, False)"
    unfolding SPI_getbinval_def split_hash_row_def by simp
  then show ?thesis using assms
    by (auto simp: get_int_def hashval_of_def)
qed

lemma cluster_wf_conn_list:
  "cluster_wf k cl \<Longrightarrow> length xs = length (conn_list cl) \<Longrightarrow> cluster_wf k (cl\<lparr>conn_list := xs\<rparr>)"
  by (simp add: cluster_wf_def)

lemma fresh_tags_step:
  assumes f: "fresh_tags (i # is) cl" and ci: "ci < length (conn_list cl)"
      and t: "run_tag conn' = word_of_nat i + 1"
  shows "fresh_tags is (cl\<lparr>conn_list := (conn_list cl)[ci := conn']\<rparr>)"
proof -
  from f have d: "distinct (i # is)" and b: "\<forall>j \<in> set (i # is). j < 2 ^ 31"
    and o: "\<forall>conn \<in> set (conn_list cl). \<forall>j \<in> set is. run_tag conn \<noteq> word_of_nat j + 1"
    by (auto simp: fresh_tags_def)
  have n: "run_tag conn' \<noteq> word_of_nat j + 1" if "j \<in> set is" for j
  proof -
    from that d b have "i \<noteq> j" "i < 2 ^ 31" "j < 2 ^ 31" by auto
    then show ?thesis unfolding t using split_tag_inj [of i j] by simp
  qed
  have "\<forall>conn \<in> set ((conn_list cl)[ci := conn']). \<forall>j \<in> set is. run_tag conn \<noteq> word_of_nat j + 1"
  proof
    fix conn assume "conn \<in> set ((conn_list cl)[ci := conn'])"
    then have "conn = conn' \<or> conn \<in> set (conn_list cl)"
      using set_update_subset_insert by fastforce
    with n o show "\<forall>j \<in> set is. run_tag conn \<noteq> word_of_nat j + 1" by blast
  qed
  with d b show ?thesis by (simp add: fresh_tags_def)
qed

lemma new_split_rows_spec:
  assumes "cluster_wf k cl" and ht: "htype \<in> {INT2OID, INT4OID, INT8OID}"
      and "fresh_tags is cl"
  shows "new_split_rows func INT4OID htype arrays (map (split_hash_row 1 h) is) cl =
         split_spec func arrays (\<lambda>i. the (hashval_of htype (h i))) is cl"
  using assms(1,3)
proof (induction "is" arbitrary: cl)
  case Nil
  then show ?case by simp
next
  case (Cons i "is")
  let ?hv = "the (hashval_of htype (h i))"
  let ?ci = "part_map cl ! unat (mask_hash cl ?hv)"
  let ?conn = "conn_list cl ! ?ci"
  let ?r = "split_value func arrays (?conn\<lparr>run_tag := word_of_nat i + 1\<rparr>) (int i)"
  let ?cl1 = "cl\<lparr>conn_list := (conn_list cl)[?ci := state_of ?r]\<rparr>"
  from cluster_wf_index [OF Cons.prems(1), of ?hv] have
    i1: "unat (mask_hash cl ?hv) < length (part_map cl)" and i2: "?ci < length (conn_list cl)"
    by auto
  from Cons.prems(2) i2 have nt: "run_tag ?conn \<noteq> word_of_nat i + 1"
    by (auto simp: fresh_tags_def)
  from Cons.prems(2) have il: "i < 2 ^ 31" by (simp add: fresh_tags_def)
  have wf1: "cluster_wf k ?cl1" using Cons.prems(1) by (simp add: cluster_wf_conn_list)
  have fr1: "fresh_tags is ?cl1" by (rule fresh_tags_step [OF Cons.prems(2) i2]) simp
  note IH = Cons.IH [OF wf1 fr1]
  show ?case
  proof (cases ?r)
    case (Normal u conn')
    then have "state_of ?r = conn'" by simp
    with IH Normal show ?thesis
      by (simp add: get_int_index_Suc get_int_hash [OF ht] i1 i2 nt sint_split_row [OF il] Let_def)
  next
    case (Raised e conn')
    then show ?thesis
      by (simp add: get_int_index_Suc get_int_hash [OF ht] i1 i2 nt sint_split_row [OF il] Let_def)
  qed
qed

lemma old_split_conn_skip:
  "run_tag conn \<noteq> my_tag \<Longrightarrow>
     old_split_conn func arrays my_tag row ((), conn) = Normal () ((), conn)"
  by (simp add: old_split_conn_def)

lemma old_split_conn_hit:
  "run_tag conn = my_tag \<Longrightarrow>
     old_split_conn func arrays my_tag row ((), conn) =
       (case split_value func arrays conn row of
          Raised e conn' \<Rightarrow> Raised e ((), conn')
        | Normal u conn' \<Rightarrow> Normal () ((), conn'))"
  by (simp add: old_split_conn_def)

lemma foreach_old_split_none:
  assumes "\<forall>c \<in> set todo. run_tag c \<noteq> my_tag"
  shows "foreach_conn (old_split_conn func arrays my_tag row) () seen todo =
           Normal () ((), seen @ todo)"
  using assms
  by (induction todo arbitrary: seen) (simp_all add: old_split_conn_skip)

lemma foreach_old_split_one:
  assumes "ci < length todo" and "run_tag (todo ! ci) = my_tag"
      and "\<forall>j < length todo. j \<noteq> ci \<longrightarrow> run_tag (todo ! j) \<noteq> my_tag"
  shows "foreach_conn (old_split_conn func arrays my_tag row) () seen todo =
           (case split_value func arrays (todo ! ci) row of
              Raised e c' \<Rightarrow> Raised e ((), seen @ todo[ci := c'])
            | Normal u c' \<Rightarrow> Normal () ((), seen @ todo[ci := c']))"
  using assms
proof (induction todo arbitrary: seen ci)
  case Nil
  then show ?case by simp
next
  case (Cons c rest)
  show ?case
  proof (cases ci)
    case 0
    with Cons.prems have t: "run_tag c = my_tag" by simp
    have "\<forall>c' \<in> set rest. run_tag c' \<noteq> my_tag"
    proof
      fix c' assume "c' \<in> set rest"
      then obtain j where "j < length rest" "rest ! j = c'" by (auto simp: in_set_conv_nth)
      with Cons.prems(3) [rule_format, of "Suc j"] 0 show "run_tag c' \<noteq> my_tag" by auto
    qed
    note n = foreach_old_split_none [OF this]
    show ?thesis
      by (cases "split_value func arrays c row") (simp_all add: 0 old_split_conn_hit [OF t] n)
  next
    case (Suc k)
    with Cons.prems(3) [rule_format, of 0] have nt: "run_tag c \<noteq> my_tag" by simp
    from Cons.prems Suc have k: "k < length rest" "run_tag (rest ! k) = my_tag" by auto
    have o: "\<forall>j < length rest. j \<noteq> k \<longrightarrow> run_tag (rest ! j) \<noteq> my_tag"
    proof (intro allI impI)
      fix j assume "j < length rest" "j \<noteq> k"
      with Cons.prems(3) [rule_format, of "Suc j"] Suc show "run_tag (rest ! j) \<noteq> my_tag" by auto
    qed
    from Cons.IH [OF k o, of "seen @ [c]"] show ?thesis
      by (simp add: Suc old_split_conn_skip [OF nt] split: outcome.splits)
  qed
qed

lemma tag_hash_partitions_one_row:
  assumes q: "plproxy_query_exec E func fcinfo (hash_sql func) ap ar w =
                Normal \<lparr>tupdesc = [htype], vals = [[Some v]]\<rparr> w'"
      and ht: "htype \<in> {INT2OID, INT4OID, INT8OID}"
      and wf: "cluster_wf k cl"
  shows "tag_hash_partitions E func fcinfo tag ap ar (cl, w) =
           Normal () (cl\<lparr>conn_list :=
              (conn_list cl)[part_map cl ! unat (mask_hash cl (the (hashval_of htype v))) :=
                 (conn_list cl ! (part_map cl ! unat (mask_hash cl (the (hashval_of htype v)))))
                    \<lparr>run_tag := tag\<rparr>]\<rparr>, w')"
proof -
  from hashval_of_int [OF ht, of v] obtain hv where hv: "hashval_of htype v = Some hv" by blast
  from cluster_wf_index [OF wf, of hv] show ?thesis
    by (simp add: tag_hash_partitions_unfold [OF q] SPI_gettypeid_def SPI_getbinval_def hv
          set_part_run_tag_def)
qed

lemma old_split_rows_spec:
  assumes rt: "run_type func = Some R_HASH"
      and q: "\<And>row w. row \<in> set is \<Longrightarrow>
                \<exists>w'. plproxy_query_exec E func fcinfo (hash_sql func) (Some arrays) (int row) w =
                       Normal \<lparr>tupdesc = [htype], vals = [[Some (h row)]]\<rparr> w'"
      and ht: "htype \<in> {INT2OID, INT4OID, INT8OID}"
      and wf: "cluster_wf k cl"
      and fr: "fresh_tags is cl"
  shows "drop_world (old_split_rows E func fcinfo arrays is (cl, w)) =
         split_spec func arrays (\<lambda>i. the (hashval_of htype (h i))) is cl"
  using q wf fr
proof (induction "is" arbitrary: cl w)
  case Nil
  then show ?case by (simp add: drop_world_def)
next
  case (Cons i "is")
  let ?tag = "word_of_nat i + 1 :: 32 word"
  let ?hv = "the (hashval_of htype (h i))"
  let ?ci = "part_map cl ! unat (mask_hash cl ?hv)"
  let ?conn = "conn_list cl ! ?ci"
  let ?conns = "(conn_list cl)[?ci := ?conn\<lparr>run_tag := ?tag\<rparr>]"
  let ?r = "split_value func arrays (?conn\<lparr>run_tag := ?tag\<rparr>) (int i)"
  let ?cl1 = "cl\<lparr>conn_list := (conn_list cl)[?ci := state_of ?r]\<rparr>"
  from Cons.prems(1) [of i w] obtain w' where
    qi: "plproxy_query_exec E func fcinfo (hash_sql func) (Some arrays) (int i) w =
           Normal \<lparr>tupdesc = [htype], vals = [[Some (h i)]]\<rparr> w'" by auto
  have tag: "tag_run_on_partitions E func fcinfo ?tag (Some arrays) (int i) (cl, w) =
               Normal () (cl\<lparr>conn_list := ?conns\<rparr>, w')"
    unfolding tag_run_on_partitions_def
    by (simp add: rt tag_hash_partitions_one_row [OF qi ht Cons.prems(2)])
  from cluster_wf_index [OF Cons.prems(2), of ?hv] have i2: "?ci < length (conn_list cl)" by auto
  have others: "\<forall>j < length ?conns. j \<noteq> ?ci \<longrightarrow> run_tag (?conns ! j) \<noteq> ?tag"
    using Cons.prems(3) by (auto simp: fresh_tags_def)
  have hit: "run_tag (?conns ! ?ci) = ?tag" using i2 by simp
  have at: "?conns ! ?ci = ?conn\<lparr>run_tag := ?tag\<rparr>" using i2 by simp
  have len: "?ci < length ?conns" using i2 by simp
  note one = foreach_old_split_one [of ?ci ?conns ?tag func arrays "int i" "[]", OF len hit others]
  have wf1: "cluster_wf k ?cl1" using Cons.prems(2) by (simp add: cluster_wf_conn_list)
  have fr1: "fresh_tags is ?cl1" by (rule fresh_tags_step [OF Cons.prems(3) i2]) simp
  have q1: "\<And>row w. row \<in> set is \<Longrightarrow>
                \<exists>w'. plproxy_query_exec E func fcinfo (hash_sql func) (Some arrays) (int row) w =
                       Normal \<lparr>tupdesc = [htype], vals = [[Some (h row)]]\<rparr> w'"
    using Cons.prems(1) by simp
  note IH = Cons.IH [OF q1 wf1 fr1, of w']
  show ?case
  proof (cases ?r)
    case (Normal u conn')
    then have st: "state_of ?r = conn'" by simp
    have "foreach_conn (old_split_conn func arrays ?tag (int i)) () [] ?conns =
            Normal () ((), (conn_list cl)[?ci := conn'])"
      using one unfolding at by (simp add: Normal)
    with IH Normal st show ?thesis
      by (simp add: tag Let_def)
  next
    case (Raised e conn')
    have "foreach_conn (old_split_conn func arrays ?tag (int i)) () [] ?conns =
            Raised e ((), (conn_list cl)[?ci := conn'])"
      using one unfolding at by (simp add: Raised)
    with Raised show ?thesis
      by (simp add: tag Let_def drop_world_def)
  qed
qed

lemma split_cols_func:
  assumes "split_args f = split_args g"
  shows "split_cols f arrays row cols bs = split_cols g arrays row cols bs"
  using assms
  by (induction cols arbitrary: bs) (auto simp: IS_SPLIT_ARG_def split: option.splits)

lemma split_value_func:
  assumes "func_arg_count f = func_arg_count g" "split_args f = split_args g"
  shows "split_value f arrays conn row = split_value g arrays conn row"
  unfolding split_value_def
  by (simp only: assms(1) split_cols_func [OF assms(2)])

lemma split_spec_func:
  assumes "func_arg_count f = func_arg_count g" "split_args f = split_args g"
  shows "split_spec f arrays hv is cl = split_spec g arrays hv is cl"
  by (induction "is" arbitrary: cl)
     (simp_all add: split_value_func [OF assms] Let_def split: outcome.splits)

lemma fresh_tags_clean:
  assumes "\<forall>conn \<in> set (conn_list cl). run_tag conn = 0" and "L < 2 ^ 31"
  shows "fresh_tags [0 ..< L] cl"
proof -
  have "(word_of_nat i + 1 :: 32 word) \<noteq> 0" if "i < L" for i
  proof -
    from that assms(2) have "Suc i < 2 ^ 32" by simp
    have "unat (word_of_nat (Suc i) :: 32 word) = Suc i mod 2 ^ LENGTH(32)"
      by (rule unat_of_nat)
    also have "\<dots> = Suc i" using \<open>Suc i < 2 ^ 32\<close> by simp
    finally have "unat (word_of_nat (Suc i) :: 32 word) = Suc i" .
    then have "(word_of_nat (Suc i) :: 32 word) \<noteq> 0" by (metis Zero_not_Suc unat_0)
    then show ?thesis by (simp add: add.commute)
  qed
  with assms show ?thesis by (auto simp: fresh_tags_def)
qed


subsection \<open>What a connection accumulates\<close>






section \<open>The split paths against the contract\<close>

lemma new_split_args_spec:
  assumes qn: "plproxy_query_exec E fn fcinfo (hash_sql fn) None 0 w =
                 Normal \<lparr>tupdesc = [INT4OID, htype], vals = map (split_hash_row 1 h) [0 ..< L]\<rparr> wn"
      and ht: "htype \<in> {INT2OID, INT4OID, INT8OID}"
      and wf: "cluster_wf k cluster"
      and clean: "\<forall>conn \<in> set (conn_list cluster). run_tag conn = 0"
      and L: "L < 2 ^ 31"
  shows "drop_world (new_split_args E fn fcinfo arrays (cluster, w)) =
           split_spec fn arrays (\<lambda>i. the (hashval_of htype (h i))) [0 ..< L] cluster"
proof -
  have "new_split_args E fn fcinfo arrays (cluster, w) =
          with_world wn (new_split_rows fn INT4OID htype arrays (map (split_hash_row 1 h) [0 ..< L])
                           cluster)"
    unfolding new_split_args_def by (simp add: qn SPI_gettypeid_def)
  also have "new_split_rows fn INT4OID htype arrays (map (split_hash_row 1 h) [0 ..< L]) cluster =
               split_spec fn arrays (\<lambda>i. the (hashval_of htype (h i))) [0 ..< L] cluster"
    by (rule new_split_rows_spec [OF wf ht fresh_tags_clean [OF clean L]])
  finally show ?thesis
    by (simp add: drop_world_def with_world_def split: outcome.splits)
qed

lemma old_split_args_spec:
  assumes rt: "run_type fo = Some R_HASH"
      and qo: "\<And>row w. row < L \<Longrightarrow>
                \<exists>w'. plproxy_query_exec E fo fcinfo (hash_sql fo) (Some arrays) (int row) w =
                       Normal \<lparr>tupdesc = [htype], vals = [[Some (h row)]]\<rparr> w'"
      and ht: "htype \<in> {INT2OID, INT4OID, INT8OID}"
      and wf: "cluster_wf k cluster"
      and clean: "\<forall>conn \<in> set (conn_list cluster). run_tag conn = 0"
      and L: "L < 2 ^ 31"
  shows "drop_world (old_split_args E fo fcinfo (int L) arrays (cluster, w)) =
           split_spec fo arrays (\<lambda>i. the (hashval_of htype (h i))) [0 ..< L] cluster"
  unfolding old_split_args_def nat_int
  by (rule old_split_rows_spec [OF rt _ ht wf fresh_tags_clean [OF clean L]]) (simp add: qo)

text \<open>
  Where the subscripts of the split arrays start at 1, the optimized query returns the rows
  \<open>(i + 1, h i)\<close> in turn, and both paths carry out the contract: they leave the same
  \<^verbatim>\<open>run_tag\<close> and the same accumulated arrays on every connection.
\<close>

lemma split_paths_agree_from_one:
  assumes rt: "run_type fo = Some R_HASH"
      and args: "func_arg_count fn = func_arg_count fo" "split_args fn = split_args fo"
      and qn: "plproxy_query_exec E fn fcinfo (hash_sql fn) None 0 w =
                 Normal \<lparr>tupdesc = [INT4OID, htype], vals = map (split_hash_row 1 h) [0 ..< L]\<rparr> wn"
      and qo: "\<And>row w. row < L \<Longrightarrow>
                \<exists>w'. plproxy_query_exec E fo fcinfo (hash_sql fo) (Some arrays) (int row) w =
                       Normal \<lparr>tupdesc = [htype], vals = [[Some (h row)]]\<rparr> w'"
      and ht: "htype \<in> {INT2OID, INT4OID, INT8OID}"
      and wf: "cluster_wf k cluster"
      and clean: "\<forall>conn \<in> set (conn_list cluster). run_tag conn = 0"
      and L: "L < 2 ^ 31"
  shows "drop_world (new_split_args E fn fcinfo arrays (cluster, w)) =
         drop_world (old_split_args E fo fcinfo (int L) arrays (cluster, w))"
proof -
  have n: "drop_world (new_split_args E fn fcinfo arrays (cluster, w)) =
             split_spec fn arrays (\<lambda>i. the (hashval_of htype (h i))) [0 ..< L] cluster"
    by (rule new_split_args_spec [OF qn ht wf clean L])
  have o: "drop_world (old_split_args E fo fcinfo (int L) arrays (cluster, w)) =
             split_spec fo arrays (\<lambda>i. the (hashval_of htype (h i))) [0 ..< L] cluster"
    by (rule old_split_args_spec [OF rt qo ht wf clean L])
  show ?thesis unfolding n o by (rule split_spec_func [OF args])
qed




text \<open>
  C3.  The two paths do not agree on every split call.  On the array
  \<^verbatim>\<open>'[0:2]={1,5,2}'\<close>, whose subscripts start at 0, with the hash \<open>h(x) = x\<close> on
  four partitions, both paths return; the fallback path tags partitions 1 and 2 with 2
  and 3 and gives them \<open>{1,5}\<close> and \<open>{2}\<close>, while the optimized path tags them with 1
  and 2 and gives them \<open>{1}\<close> and \<open>{5}\<close>: it takes the subscript \<^verbatim>\<open>idx\<close> for a
  position counted from 1, skips the row of subscript 0 on an untagged connection, hands
  the element 5 to partition 2 although its hash selects partition 1, and hands the
  element 2 to no partition.  On \<^verbatim>\<open>'[2:4]={1,5,2}'\<close> the optimized path reads outside
  the array where the fallback path returns.  On \<^verbatim>\<open>'{1,5,2}'\<close>, with subscripts from 1,
  the optimized path gives what the fallback path gives on all three arrays.
\<close>

theorem split_paths_differ_off_base:
  "is_Normal (shifted_split True 0) \<and> is_Normal (shifted_split False 0) \<and>
   map run_tag (conn_list (fst (state_of (shifted_split True 0)))) = [0, 1, 2, 0] \<and>
   map run_tag (conn_list (fst (state_of (shifted_split False 0)))) = [0, 2, 3, 0] \<and>
   map accumulated (conn_list (fst (state_of (shifted_split True 0)))) =
     [None, Some [Some [1]], Some [Some [5]], None] \<and>
   map accumulated (conn_list (fst (state_of (shifted_split False 0)))) =
     [None, Some [Some [1, 5]], Some [Some [2]], None] \<and>
   map split_param_values (conn_list (fst (state_of (shifted_split True 0)))) =
     [None, Some [[1]], Some [[5]], None] \<and>
   map split_param_values (conn_list (fst (state_of (shifted_split False 0)))) =
     [None, Some [[1, 5]], Some [[2]], None] \<and>
   is_Raised (shifted_split True 2) \<and> error_of (shifted_split True 2) = MemoryFault \<and>
   is_Normal (shifted_split False 2) \<and>
   map accumulated (conn_list (fst (state_of (shifted_split False 2)))) =
     [None, Some [Some [1, 5]], Some [Some [2]], None] \<and>
   is_Normal (shifted_split True 1) \<and>
   map run_tag (conn_list (fst (state_of (shifted_split True 1)))) = [0, 2, 3, 0] \<and>
   map accumulated (conn_list (fst (state_of (shifted_split True 1)))) =
     [None, Some [Some [1, 5]], Some [Some [2]], None]"
  unfolding shifted_split_def by code_simp











end
